theory Spec2Isabelle
  imports Complex_Main "HOL-Library.Sublist"
begin

section \<open>JavaScript primitives used by the question engine and the progress model\<close>

text \<open>
  Numbers of the program are modelled as mathematical integers (\<open>int\<close>) and, where the
  source divides, as rationals (\<open>rat\<close>); the rounding of IEEE doubles is outside this
  model. Strings are \<open>char list\<close>.
\<close>

subsection \<open>Ambient sources: \<open>Math.random()\<close> and \<open>Date.now()\<close>\<close>

text \<open>
  The sequence of values that \<open>Math.random()\<close> will return is \<open>rnd\<close>, read at the
  cursor \<open>rpos\<close>; likewise \<open>clk\<close> and \<open>cpos\<close> for \<open>Date.now()\<close>. The key-value
  store of the browser is \<open>localStorage\<close>; \<open>storageFails\<close> says that every access to it
  throws (storage unavailable), \<open>quotaExceeded\<close> that \<open>setItem\<close> throws.
\<close>

record world =
  rnd :: "nat \<Rightarrow> rat"
  rpos :: nat
  clk :: "nat \<Rightarrow> int"
  cpos :: nat
  localStorage :: "string \<rightharpoonup> string"
  storageFails :: bool
  quotaExceeded :: bool

definition Math_random :: "world \<Rightarrow> rat \<times> world" where
  "Math_random w = (rnd w (rpos w), w\<lparr>rpos := Suc (rpos w)\<rparr>)"

definition Date_now :: "world \<Rightarrow> int \<times> world" where
  "Date_now w = (clk w (cpos w), w\<lparr>cpos := Suc (cpos w)\<rparr>)"

text \<open>The contract of \<open>Math.random()\<close>: every value lies in \<open>[0, 1)\<close>.\<close>

definition random_ok :: "world \<Rightarrow> bool" where
  "random_ok w \<longleftrightarrow> (\<forall>i. 0 \<le> rnd w i \<and> rnd w i < 1)"

subsection \<open>Strings\<close>

definition digit_char :: "nat \<Rightarrow> char" where
  "digit_char d = ''0123456789'' ! d"

fun nat_toString :: "nat \<Rightarrow> string" where
  "nat_toString n =
     (if n < 10 then [digit_char n] else nat_toString (n div 10) @ [digit_char (n mod 10)])"

declare nat_toString.simps [simp del]

text \<open>\<open>Number.prototype.toString()\<close> on an integer: decimal digits after an optional minus.\<close>

definition Number_toString :: "int \<Rightarrow> string" where
  "Number_toString i = (if i < 0 then CHR ''-'' # nat_toString (nat (- i)) else nat_toString (nat i))"

text \<open>
  \<open>String.prototype.replace(pattern, replacement)\<close> with a string pattern: the first
  occurrence is replaced, the rest of the string is kept.
\<close>

fun String_replace :: "string \<Rightarrow> string \<Rightarrow> string \<Rightarrow> string" where
  "String_replace pat rep [] = (if pat = [] then rep else [])"
| "String_replace pat rep (c # cs) =
     (if prefix pat (c # cs) then rep @ drop (length pat) (c # cs)
      else c # String_replace pat rep cs)"

definition isDigit :: "char \<Rightarrow> bool" where
  "isDigit c \<longleftrightarrow> c \<in> set ''0123456789''"

text \<open>
  White space as \<open>String.prototype.trim()\<close> sees it, on the 8-bit characters of this
  model: space, tab, line feed, vertical tab, form feed, carriage return and the
  no-break space.
\<close>

definition isWhiteSpace :: "char \<Rightarrow> bool" where
  "isWhiteSpace c \<longleftrightarrow> of_char c \<in> {9, 10, 11, 12, 13, 32, 160 :: nat}"

definition String_trim :: "string \<Rightarrow> string" where
  "String_trim s = rev (dropWhile isWhiteSpace (rev (dropWhile isWhiteSpace s)))"

section \<open>MathEngine\<close>

subsection \<open>Data\<close>

text \<open>
  A question template as the question bank holds it. \<open>visualHint\<close> and \<open>hintType\<close>
  may be absent from the object (\<open>None\<close>).
\<close>

record question_template =
  template_id :: string
  template_type :: string
  operation :: string
  template :: string
  minValue :: int
  maxValue :: int
  visualHint :: "bool option"
  hintType :: "string option"

text \<open>The object that \<open>generateQuestion\<close> and \<open>generateFallbackQuestion\<close> return.\<close>

record question =
  question_id :: string
  question_type :: string
  question_operation :: string
  questionText :: string
  answer :: int
  question_visualHint :: bool
  question_hintType :: "string option"
  operands :: "int \<times> int"
  question_difficulty :: string

type_synonym question_bank = "string \<rightharpoonup> question_template list"

text \<open>The fields of a \<open>MathEngine\<close> instance; \<open>None\<close> is JavaScript's \<open>null\<close>.\<close>

record engine =
  questionBank :: "question_bank option"
  currentDifficulty :: string
  recentQuestions :: "string list"
  maxRecentQuestions :: nat
  currentQuestion :: "question option"

definition MathEngine_new :: engine where
  "MathEngine_new =
     \<lparr>questionBank = None, currentDifficulty = ''easy'', recentQuestions = [],
      maxRecentQuestions = 3, currentQuestion = None\<rparr>"

subsection \<open>Random helpers\<close>

definition randomInt :: "int \<Rightarrow> int \<Rightarrow> world \<Rightarrow> int \<times> world" where
  "randomInt mn mx w =
     (case Math_random w of (r, w') \<Rightarrow> (\<lfloor>r * of_int (mx - mn + 1)\<rfloor> + mn, w'))"

text \<open>
  \<open>getRandomElement\<close>: \<open>null\<close> for an empty array, without a draw; otherwise the
  element at index \<open>floor(random * length)\<close>. An index outside the array reads
  \<open>undefined\<close>; both \<open>null\<close> and \<open>undefined\<close> are \<open>None\<close> here.
\<close>

definition getRandomElement :: "'a list \<Rightarrow> world \<Rightarrow> 'a option \<times> world" where
  "getRandomElement array w =
     (if array = [] then (None, w)
      else case Math_random w of (r, w') \<Rightarrow>
        (let i = \<lfloor>r * of_nat (length array)\<rfloor>
         in (if 0 \<le> i \<and> i < int (length array) then Some (array ! nat i) else None, w')))"

subsection \<open>Question generation\<close>

text \<open>
  The body of \<open>generateQuestion\<close> after the two operands are sampled and the clock is
  read: the answer, the rendered text and the returned object.
\<close>

definition question_of :: "engine \<Rightarrow> question_template \<Rightarrow> int \<Rightarrow> int \<Rightarrow> int \<Rightarrow> question" where
  "question_of e t a b now =
     (let ans = (if operation t = ''addition'' then a + b
                 else if operation t = ''subtraction'' then max a b - min a b
                 else a + b);
          text0 = String_replace ''{b}'' (Number_toString b)
                    (String_replace ''{a}'' (Number_toString a) (template t));
          text1 = (if operation t = ''subtraction''
                   then String_replace ''{b}'' (Number_toString (min a b))
                          (String_replace ''{a}'' (Number_toString (max a b)) (template t))
                   else text0)
      in \<lparr>question_id = template_id t @ ''_'' @ Number_toString now,
          question_type = template_type t,
          question_operation = operation t,
          questionText = text1,
          answer = ans,
          question_visualHint = (case visualHint t of Some v \<Rightarrow> v | None \<Rightarrow> False),
          question_hintType = (case hintType t of Some h \<Rightarrow> if h = [] then None else Some h
                               | None \<Rightarrow> None),
          operands = (a, b),
          question_difficulty = currentDifficulty e\<rparr>)"

definition generateQuestion :: "engine \<Rightarrow> question_template \<Rightarrow> world \<Rightarrow> question \<times> world" where
  "generateQuestion e t w =
     (case randomInt (minValue t) (maxValue t) w of (a, w1) \<Rightarrow>
      case randomInt (minValue t) (maxValue t) w1 of (b, w2) \<Rightarrow>
      case Date_now w2 of (now, w3) \<Rightarrow>
        (question_of e t a b now, w3))"

text \<open>\<open>generateFallbackQuestion\<close>: a hard-coded addition of two operands from 1 to 10.\<close>

definition generateFallbackQuestion :: "world \<Rightarrow> question \<times> world" where
  "generateFallbackQuestion w =
     (case randomInt 1 10 w of (a, w1) \<Rightarrow>
      case randomInt 1 10 w1 of (b, w2) \<Rightarrow>
      case Date_now w2 of (now, w3) \<Rightarrow>
        (\<lparr>question_id = ''fallback_'' @ Number_toString now,
          question_type = ''equation'',
          question_operation = ''addition'',
          questionText = Number_toString a @ '' + '' @ Number_toString b @ '' = ?'',
          answer = a + b,
          question_visualHint = False,
          question_hintType = None,
          operands = (a, b),
          question_difficulty = ''easy''\<rparr>, w3))"

definition mk_template ::
  "string \<Rightarrow> string \<Rightarrow> string \<Rightarrow> string \<Rightarrow> int \<Rightarrow> int \<Rightarrow> bool option \<Rightarrow> string option
     \<Rightarrow> question_template" where
  "mk_template i ty opn txt mn mx vh ht =
     \<lparr>template_id = i, template_type = ty, operation = opn, template = txt,
      minValue = mn, maxValue = mx, visualHint = vh, hintType = ht\<rparr>"

definition default_easy :: "question_template list" where
  "default_easy =
     [mk_template ''add_easy_001'' ''equation'' ''addition'' ''{a} + {b} = ?'' 0 10
        (Some True) (Some ''bananas''),
      mk_template ''add_easy_002'' ''word-problem'' ''addition''
        ''The gorilla found {a} bananas. Then found {b} more. How many total?'' 0 10
        (Some True) (Some ''bananas''),
      mk_template ''sub_easy_001'' ''equation'' ''subtraction'' ''{a} - {b} = ?'' 0 10
        (Some True) (Some ''bananas''),
      mk_template ''sub_easy_002'' ''word-problem'' ''subtraction''
        ''The gorilla had {a} bananas and ate {b}. How many are left?'' 0 10
        (Some True) (Some ''bananas'')]"

definition default_medium :: "question_template list" where
  "default_medium =
     [mk_template ''add_medium_001'' ''equation'' ''addition'' ''{a} + {b} = ?'' 10 25
        (Some False) None,
      mk_template ''sub_medium_001'' ''equation'' ''subtraction'' ''{a} - {b} = ?'' 10 25
        (Some False) None,
      mk_template ''add_medium_002'' ''word-problem'' ''addition''
        ''The gorilla swung past {a} vines and then {b} more. How many vines total?'' 10 25
        (Some False) None]"

definition default_hard :: "question_template list" where
  "default_hard =
     [mk_template ''add_hard_001'' ''equation'' ''addition'' ''{a} + {b} = ?'' 25 50
        (Some False) None,
      mk_template ''sub_hard_001'' ''equation'' ''subtraction'' ''{a} - {b} = ?'' 25 50
        (Some False) None,
      mk_template ''add_hard_002'' ''word-problem'' ''addition''
        ''The gorilla collected {a} bananas yesterday and {b} today. How many total?'' 25 50
        (Some False) None]"

definition getDefaultQuestionBank :: question_bank where
  "getDefaultQuestionBank =
     [''easy'' \<mapsto> default_easy, ''medium'' \<mapsto> default_medium, ''hard'' \<mapsto> default_hard]"

subsection \<open>Engine operations\<close>

text \<open>\<open>initialize(questionData)\<close>: a falsy argument (\<open>None\<close>) installs the default bank.\<close>

definition initialize :: "engine \<Rightarrow> question_bank option \<Rightarrow> engine" where
  "initialize e questionData =
     (case questionData of
        None \<Rightarrow> e\<lparr>questionBank := Some getDefaultQuestionBank\<rparr>
      | Some qd \<Rightarrow> e\<lparr>questionBank := Some qd\<rparr>)"

definition validLevels :: "string list" where
  "validLevels = [''easy'', ''medium'', ''hard'']"

text \<open>
  \<open>setDifficulty(level)\<close>: \<open>validLevels.includes(level)\<close> compares strings exactly. The
  branch for a level outside the list returns before the window is reset.
\<close>

definition setDifficulty :: "engine \<Rightarrow> string \<Rightarrow> engine" where
  "setDifficulty e level =
     (if level \<notin> set validLevels then e\<lparr>currentDifficulty := ''easy''\<rparr>
      else e\<lparr>currentDifficulty := level, recentQuestions := []\<rparr>)"

text \<open>\<open>addToRecentQuestions\<close>: \<open>push\<close>, then one \<open>shift\<close> when the bound is exceeded.\<close>

definition addToRecentQuestions :: "engine \<Rightarrow> string \<Rightarrow> engine" where
  "addToRecentQuestions e questionId =
     (let pushed = recentQuestions e @ [questionId]
      in e\<lparr>recentQuestions :=
             (if length pushed > maxRecentQuestions e then tl pushed else pushed)\<rparr>)"

datatype js_error = TypeError | SyntaxError | StorageError

text \<open>
  \<open>getNextQuestion\<close> returns the question (or the \<open>TypeError\<close> that reading a field
  of \<open>undefined\<close> throws when \<open>getRandomElement\<close> yields no template), the engine after
  the call and the remaining world.
\<close>

definition withQuestionBank :: "engine \<Rightarrow> engine" where
  "withQuestionBank e =
     (if questionBank e = None then e\<lparr>questionBank := Some getDefaultQuestionBank\<rparr> else e)"

text \<open>\<open>this.questionBank[difficulty]\<close>; a missing pool reads as the empty list.\<close>

definition currentPool :: "engine \<Rightarrow> question_template list" where
  "currentPool e =
     (case (case questionBank e of Some b \<Rightarrow> b | None \<Rightarrow> getDefaultQuestionBank)
             (currentDifficulty e) of
        Some p \<Rightarrow> p
      | None \<Rightarrow> [])"

text \<open>
  The local \<open>template\<close> of \<open>getNextQuestion\<close>: the recently used templates are filtered
  out, the whole pool is used when nothing is left, and one element is drawn.
\<close>

definition selectTemplate ::
  "engine \<Rightarrow> question_template list \<Rightarrow> world \<Rightarrow> question_template option \<times> world" where
  "selectTemplate e pool w =
     (let available = filter (\<lambda>t. template_id t \<notin> set (recentQuestions e)) pool;
          questionPool = (if length available > 0 then available else pool)
      in getRandomElement questionPool w)"

definition getNextQuestion :: "engine \<Rightarrow> world \<Rightarrow> (js_error + question) \<times> engine \<times> world" where
  "getNextQuestion e w =
     (let e1 = withQuestionBank e;
          pool = currentPool e1
      in if pool = [] then
           (case generateFallbackQuestion w of (q, w') \<Rightarrow> (Inr q, e1, w'))
         else
           (case selectTemplate e1 pool w of
              (None, w1) \<Rightarrow> (Inl TypeError, e1, w1)
            | (Some t, w1) \<Rightarrow>
                (case generateQuestion e1 t w1 of (q, w2) \<Rightarrow>
                   (Inr q,
                    (addToRecentQuestions e1 (template_id t))\<lparr>currentQuestion := Some q\<rparr>,
                    w2))))"

text \<open>
  The identifiers of the templates drawn by \<open>n\<close> consecutive calls of
  \<open>getNextQuestion\<close>, one entry per call (\<open>None\<close> when the call draws no template).
\<close>

fun drawn_template_ids :: "nat \<Rightarrow> engine \<Rightarrow> world \<Rightarrow> string option list" where
  "drawn_template_ids 0 e w = []"
| "drawn_template_ids (Suc n) e w =
     map_option template_id
       (if currentPool (withQuestionBank e) = [] then None
        else fst (selectTemplate (withQuestionBank e) (currentPool (withQuestionBank e)) w))
     # (case getNextQuestion e w of (r, e', w') \<Rightarrow> drawn_template_ids n e' w')"

text \<open>The bound on the window that every engine operation maintains.\<close>

definition window_ok :: "engine \<Rightarrow> bool" where
  "window_ok e \<longleftrightarrow> maxRecentQuestions e = 3 \<and> length (recentQuestions e) \<le> 3"

definition getCurrentQuestion :: "engine \<Rightarrow> question option" where
  "getCurrentQuestion e = currentQuestion e"

definition reset :: "engine \<Rightarrow> engine" where
  "reset e = e\<lparr>currentQuestion := None, recentQuestions := []\<rparr>"

subsection \<open>Answer validation\<close>

text \<open>The argument of \<open>validateAnswer\<close>, documented as \<open>string|number\<close>.\<close>

datatype js_input = Str string | Num int

text \<open>\<open>MathEngine.sanitizeInput\<close>: trim, then delete what \<open>/[^0-9-]/g\<close> matches.\<close>

definition sanitizeInput :: "js_input \<Rightarrow> string" where
  "sanitizeInput input =
     (case input of
        Num n \<Rightarrow> Number_toString n
      | Str s \<Rightarrow> filter (\<lambda>c. isDigit c \<or> c = CHR ''-'') (String_trim s))"

definition digit_val :: "char \<Rightarrow> int" where
  "digit_val c = int (of_char c) - 48"

definition digits_value :: "string \<Rightarrow> int" where
  "digits_value ds = foldl (\<lambda>acc c. 10 * acc + digit_val c) 0 ds"

text \<open>
  \<open>parseInt(s, 10)\<close>: leading white space is skipped, one sign is read, then the longest
  run of digits; no digit gives \<open>NaN\<close> (\<open>None\<close>).
\<close>

definition parseInt :: "string \<Rightarrow> int option" where
  "parseInt s =
     (let s1 = dropWhile isWhiteSpace s;
          neg = (s1 \<noteq> [] \<and> hd s1 = CHR ''-'');
          s2 = (if s1 \<noteq> [] \<and> (hd s1 = CHR ''-'' \<or> hd s1 = CHR ''+'') then tl s1 else s1);
          ds = takeWhile isDigit s2
      in if ds = [] then None
         else Some (if neg then - digits_value ds else digits_value ds))"

text \<open>\<open>MathEngine.isValidNumber\<close> on the result of \<open>parseInt\<close>: not \<open>NaN\<close>.\<close>

definition isValidNumber :: "int option \<Rightarrow> bool" where
  "isValidNumber v \<longleftrightarrow> v \<noteq> None"

definition correctMessages :: "string list" where
  "correctMessages =
     [''Great job!'', ''You're a math whiz!'', ''Perfect!'', ''Awesome!'', ''Super smart!'',
      ''You got it!'', ''Excellent work!'', ''Banana-tastic!'']"

definition getCorrectMessage :: "world \<Rightarrow> string option \<times> world" where
  "getCorrectMessage w = getRandomElement correctMessages w"

definition closeMessages :: "string list" where
  "closeMessages =
     [''Almost there!'', ''So close!'', ''Try again!'', ''You can do it!'',
      ''Give it another try!'', ''Nearly got it!'']"

definition farMessages :: "string list" where
  "farMessages =
     [''Not quite, try again!'', ''Let's think about this!'', ''Give it another shot!'',
      ''Keep trying!'', ''You're learning!'']"

definition getIncorrectMessage :: "bool \<Rightarrow> world \<Rightarrow> string option \<times> world" where
  "getIncorrectMessage isClose w =
     (if isClose then getRandomElement closeMessages w else getRandomElement farMessages w)"

text \<open>
  The validation result. The two rejecting results carry no \<open>close\<close>, \<open>userAnswer\<close> or
  \<open>correctAnswer\<close> property (\<open>None\<close>).
\<close>

record validation =
  valid :: bool
  correct :: bool
  close :: "bool option"
  userAnswer :: "int option"
  correctAnswer :: "int option"
  message :: "string option"

definition validateAnswer ::
  "engine \<Rightarrow> js_input \<Rightarrow> int option \<Rightarrow> world \<Rightarrow> validation \<times> world" where
  "validateAnswer e userInput correctAnswer_arg w =
     (let expected = (case correctAnswer_arg of
                        Some c \<Rightarrow> Some c
                      | None \<Rightarrow> (case currentQuestion e of Some q \<Rightarrow> Some (answer q)
                                 | None \<Rightarrow> None))
      in case expected of
           None \<Rightarrow>
             (\<lparr>valid = False, correct = False, close = None, userAnswer = None,
               correctAnswer = None, message = Some ''No question to validate against''\<rparr>, w)
         | Some ex \<Rightarrow>
             (let cleaned = sanitizeInput userInput;
                  parsed = parseInt cleaned
              in if \<not> isValidNumber parsed then
                   (\<lparr>valid = False, correct = False, close = None, userAnswer = None,
                     correctAnswer = None, message = Some ''Please enter a valid number''\<rparr>, w)
                 else
                   (case parsed of
                      None \<Rightarrow>
                        (\<lparr>valid = False, correct = False, close = None, userAnswer = None,
                          correctAnswer = None,
                          message = Some ''Please enter a valid number''\<rparr>, w)
                    | Some ua \<Rightarrow>
                        (let isCorrect = (ua = ex);
                             isClose = (\<bar>ua - ex\<bar> \<le> 2)
                         in case (if isCorrect then getCorrectMessage w
                                  else getIncorrectMessage isClose w) of
                              (msg, w') \<Rightarrow>
                                (\<lparr>valid = True, correct = isCorrect,
                                  close = Some (\<not> isCorrect \<and> isClose),
                                  userAnswer = Some ua, correctAnswer = Some ex,
                                  message = msg\<rparr>, w')))))"

section \<open>The validators module\<close>

text \<open>
  \<open>sanitizeInput\<close> of \<open>validators.js\<close>: trim, delete every character that is neither a digit nor a minus, delete
  every minus when \<open>indexOf('-') > 0\<close>, and when \<open>split('-')\<close> has more than two parts
  put one minus in front of the string without its minus signs.
\<close>

definition String_indexOf :: "char \<Rightarrow> string \<Rightarrow> int" where
  "String_indexOf c s = (if c \<in> set s then int (length (takeWhile (\<lambda>x. x \<noteq> c) s)) else - 1)"

definition remove_minus :: "string \<Rightarrow> string" where
  "remove_minus s = filter (\<lambda>c. c \<noteq> CHR ''-'') s"

definition split_minus_length :: "string \<Rightarrow> nat" where
  "split_minus_length s = Suc (length (filter (\<lambda>c. c = CHR ''-'') s))"

definition validators_sanitizeInput :: "js_input \<Rightarrow> string" where
  "validators_sanitizeInput input =
     (let cleaned0 = String_trim (case input of Num n \<Rightarrow> Number_toString n | Str s \<Rightarrow> s);
          cleaned1 = filter (\<lambda>c. isDigit c \<or> c = CHR ''-'') cleaned0;
          cleaned2 = (if String_indexOf (CHR ''-'') cleaned1 > 0 then remove_minus cleaned1
                      else cleaned1);
          cleaned3 = (if split_minus_length cleaned2 > 2 then CHR ''-'' # remove_minus cleaned2
                      else cleaned2)
      in cleaned3)"

text \<open>
  \<open>Number(str)\<close> on the strings that \<open>validateAnswer\<close> passes to it, which hold digits
  and minus signs only: the empty string is 0, an optional sign followed by digits is
  that integer, anything else is \<open>NaN\<close> (\<open>None\<close>).
\<close>

definition String_toNumber :: "string \<Rightarrow> int option" where
  "String_toNumber s =
     (let t = String_trim s;
          neg = (t \<noteq> [] \<and> hd t = CHR ''-'');
          body = (if t \<noteq> [] \<and> (hd t = CHR ''-'' \<or> hd t = CHR ''+'') then tl t else t)
      in if t = [] then Some 0
         else if body \<noteq> [] \<and> list_all isDigit body
         then Some (if neg then - digits_value body else digits_value body)
         else None)"

definition validators_isValidNumber :: "string \<Rightarrow> bool" where
  "validators_isValidNumber input =
     (if input = [] then False
      else if String_trim input = [] then False
      else String_toNumber (String_trim input) \<noteq> None)"

record validators_result =
  v_valid :: bool
  v_correct :: bool
  v_close :: "bool option"
  v_value :: "int option"
  v_message :: string

definition validators_validateAnswer :: "js_input \<Rightarrow> int \<Rightarrow> validators_result" where
  "validators_validateAnswer input expected =
     (let cleaned = validators_sanitizeInput input
      in if \<not> validators_isValidNumber cleaned then
           \<lparr>v_valid = False, v_correct = False, v_close = None, v_value = None,
            v_message = ''Please enter a number''\<rparr>
         else
           (let parsed = parseInt cleaned;
                isCorrect = (parsed = Some expected);
                isClose = (case parsed of Some ua \<Rightarrow> \<bar>ua - expected\<bar> \<le> 2 | None \<Rightarrow> False)
            in \<lparr>v_valid = True, v_correct = isCorrect,
                v_close = Some (\<not> isCorrect \<and> isClose), v_value = parsed,
                v_message = (if isCorrect then ''Correct!'' else ''Not quite, try again!'')\<rparr>))"

text \<open>
  The shape of a sanitized string: digits, or one minus followed by digits.
\<close>

definition clean_shape :: "string \<Rightarrow> bool" where
  "clean_shape s \<longleftrightarrow>
     list_all isDigit s \<or> (s \<noteq> [] \<and> hd s = CHR ''-'' \<and> list_all isDigit (tl s))"

section \<open>ProgressManager\<close>

subsection \<open>Data\<close>

record session_data =
  difficulty :: string
  session_currentQuestion :: int
  totalQuestions :: int
  score :: int
  correctAnswers :: int
  incorrectAnswers :: int
  totalAnswers :: int
  bananasCollected :: int
  startTime :: int
  elapsedTime :: int
  starsEarned :: int

record persistent_data =
  playerId :: string
  createdAt :: int
  lastPlayed :: int
  totalSessions :: int
  totalBananas :: int
  totalStars :: int
  levelsCompleted :: "string \<rightharpoonup> int list"
  highScores :: "string \<rightharpoonup> int"
  preferences :: "string \<rightharpoonup> bool"

record progress_manager =
  storageKey :: string
  sessionData :: session_data
  persistentData :: persistent_data

text \<open>The \<open>lastSession\<close> part of the stored object and the stored object itself.\<close>

record last_session =
  last_difficulty :: string
  last_score :: int
  last_stars :: int
  last_bananas :: int
  last_timestamp :: int

record saved_data =
  saved_persistent :: persistent_data
  saved_lastSession :: last_session

text \<open>
  The \<open>persistent\<close> property of a parsed or imported object: the properties it has,
  each of the type that \<open>saveProgress\<close> writes.
\<close>

record persistent_patch =
  patch_playerId :: "string option"
  patch_createdAt :: "int option"
  patch_lastPlayed :: "int option"
  patch_totalSessions :: "int option"
  patch_totalBananas :: "int option"
  patch_totalStars :: "int option"
  patch_levelsCompleted :: "(string \<rightharpoonup> int list) option"
  patch_highScores :: "(string \<rightharpoonup> int) option"
  patch_preferences :: "(string \<rightharpoonup> bool) option"

text \<open>
  A parsed or imported value as \<open>loadProgress\<close> and \<open>importProgress\<close> inspect it:
  \<open>null\<close>, on which reading \<open>.persistent\<close> throws, or a value with its \<open>persistent\<close>
  property when that is truthy.
\<close>

datatype js_data = JNull | JValue "persistent_patch option"

text \<open>
  Built-in functions of the platform, taken as parameters: \<open>JSON.stringify\<close>,
  \<open>JSON.parse\<close> (\<open>None\<close> when it throws a \<open>SyntaxError\<close>) and the rendering
  \<open>toString(36).substring(2, 9)\<close> of a random number.
\<close>

record platform =
  JSON_stringify :: "saved_data \<Rightarrow> string"
  JSON_parse :: "string \<Rightarrow> js_data option"
  toString36_suffix :: "rat \<Rightarrow> string"

text \<open>An argument that is checked with \<open>typeof arg !== 'number'\<close>.\<close>

datatype js_arg = Number int | NotNumber

record session_results =
  result_score :: int
  result_accuracy :: rat
  result_stars :: int
  result_bananas :: int
  result_correctAnswers :: int
  result_totalAnswers :: int
  result_elapsedTime :: int

subsection \<open>Defaults and construction\<close>

definition getDefaultSessionData :: "world \<Rightarrow> session_data \<times> world" where
  "getDefaultSessionData w =
     (case Date_now w of (now, w') \<Rightarrow>
        (\<lparr>difficulty = ''easy'', session_currentQuestion = 0, totalQuestions = 5, score = 0,
          correctAnswers = 0, incorrectAnswers = 0, totalAnswers = 0, bananasCollected = 0,
          startTime = now, elapsedTime = 0, starsEarned = 0\<rparr>, w'))"

definition generatePlayerId :: "platform \<Rightarrow> world \<Rightarrow> string \<times> world" where
  "generatePlayerId P w =
     (case Date_now w of (now, w1) \<Rightarrow>
      case Math_random w1 of (r, w2) \<Rightarrow>
        (''player_'' @ Number_toString now @ ''_'' @ toString36_suffix P r, w2))"

definition getDefaultPersistentData :: "platform \<Rightarrow> world \<Rightarrow> persistent_data \<times> world" where
  "getDefaultPersistentData P w =
     (case generatePlayerId P w of (pid, w1) \<Rightarrow>
      case Date_now w1 of (created, w2) \<Rightarrow>
      case Date_now w2 of (played, w3) \<Rightarrow>
        (\<lparr>playerId = pid, createdAt = created, lastPlayed = played, totalSessions = 0,
          totalBananas = 0, totalStars = 0,
          levelsCompleted = [''easy'' \<mapsto> [], ''medium'' \<mapsto> [], ''hard'' \<mapsto> []],
          highScores = [''easy'' \<mapsto> 0, ''medium'' \<mapsto> 0, ''hard'' \<mapsto> 0],
          preferences = [''soundEnabled'' \<mapsto> True, ''musicEnabled'' \<mapsto> True]\<rparr>, w3))"

definition ProgressManager_new :: "platform \<Rightarrow> world \<Rightarrow> progress_manager \<times> world" where
  "ProgressManager_new P w =
     (case getDefaultSessionData w of (sd, w1) \<Rightarrow>
      case getDefaultPersistentData P w1 of (pd, w2) \<Rightarrow>
        (\<lparr>storageKey = ''gorilla-math-progress'', sessionData = sd, persistentData = pd\<rparr>, w2))"

subsection \<open>Session operations\<close>

text \<open>\<open>startSession(difficulty = 'easy', totalQuestions = 5)\<close>; \<open>None\<close> is an omitted argument.\<close>

definition startSession ::
  "progress_manager \<Rightarrow> string option \<Rightarrow> int option \<Rightarrow> world \<Rightarrow> progress_manager \<times> world" where
  "startSession pm difficulty_arg totalQuestions_arg w =
     (case getDefaultSessionData w of (sd, w1) \<Rightarrow>
      case Date_now w1 of (now, w2) \<Rightarrow>
        (pm\<lparr>sessionData := sd
             \<lparr>difficulty := (case difficulty_arg of Some d \<Rightarrow> d | None \<Rightarrow> ''easy''),
              totalQuestions := (case totalQuestions_arg of Some n \<Rightarrow> n | None \<Rightarrow> 5),
              startTime := now\<rparr>\<rparr>, w2))"

definition incrementScore :: "progress_manager \<Rightarrow> js_arg \<Rightarrow> progress_manager" where
  "incrementScore pm points =
     (case points of
        NotNumber \<Rightarrow> pm
      | Number n \<Rightarrow>
          if n < 0 then pm
          else pm\<lparr>sessionData := (sessionData pm)\<lparr>score := score (sessionData pm) + n\<rparr>\<rparr>)"

definition recordAnswer :: "progress_manager \<Rightarrow> bool \<Rightarrow> progress_manager" where
  "recordAnswer pm isCorrect =
     (let sd = (sessionData pm)\<lparr>totalAnswers := totalAnswers (sessionData pm) + 1\<rparr>
      in if isCorrect then pm\<lparr>sessionData := sd\<lparr>correctAnswers := correctAnswers sd + 1\<rparr>\<rparr>
         else pm\<lparr>sessionData := sd\<lparr>incorrectAnswers := incorrectAnswers sd + 1\<rparr>\<rparr>)"

text \<open>\<open>addBananas(count = 1)\<close>; \<open>None\<close> is an omitted argument.\<close>

definition addBananas :: "progress_manager \<Rightarrow> js_arg option \<Rightarrow> progress_manager" where
  "addBananas pm count_arg =
     (case (case count_arg of Some c \<Rightarrow> c | None \<Rightarrow> Number 1) of
        NotNumber \<Rightarrow> pm
      | Number n \<Rightarrow>
          if n < 0 then pm
          else pm\<lparr>sessionData :=
                    (sessionData pm)\<lparr>bananasCollected := bananasCollected (sessionData pm) + n\<rparr>\<rparr>)"

definition nextQuestion :: "progress_manager \<Rightarrow> progress_manager" where
  "nextQuestion pm =
     pm\<lparr>sessionData :=
          (sessionData pm)\<lparr>session_currentQuestion :=
                             session_currentQuestion (sessionData pm) + 1\<rparr>\<rparr>"

definition calculateAccuracy :: "progress_manager \<Rightarrow> rat" where
  "calculateAccuracy pm =
     (if totalAnswers (sessionData pm) = 0 then 0
      else (of_int (correctAnswers (sessionData pm)) / of_int (totalAnswers (sessionData pm)))
             * 100)"

definition calculateStars :: "progress_manager \<Rightarrow> int" where
  "calculateStars pm =
     (let accuracy = calculateAccuracy pm
      in if accuracy \<ge> 95 then 3
         else if accuracy \<ge> 80 then 2
         else if accuracy \<ge> 60 then 1
         else 0)"

definition updateElapsedTime :: "progress_manager \<Rightarrow> world \<Rightarrow> progress_manager \<times> world" where
  "updateElapsedTime pm w =
     (case Date_now w of (now, w') \<Rightarrow>
        (pm\<lparr>sessionData :=
              (sessionData pm)\<lparr>elapsedTime := now - startTime (sessionData pm)\<rparr>\<rparr>, w'))"

subsection \<open>Storage\<close>

definition localStorage_getItem :: "string \<Rightarrow> world \<Rightarrow> js_error + string option" where
  "localStorage_getItem k w = (if storageFails w then Inl StorageError else Inr (localStorage w k))"

definition localStorage_setItem :: "string \<Rightarrow> string \<Rightarrow> world \<Rightarrow> js_error + world" where
  "localStorage_setItem k v w =
     (if storageFails w \<or> quotaExceeded w then Inl StorageError
      else Inr (w\<lparr>localStorage := (localStorage w)(k \<mapsto> v)\<rparr>))"

definition localStorage_removeItem :: "string \<Rightarrow> world \<Rightarrow> js_error + world" where
  "localStorage_removeItem k w =
     (if storageFails w then Inl StorageError
      else Inr (w\<lparr>localStorage := (localStorage w)(k := None)\<rparr>))"

text \<open>\<open>saveProgress\<close>: the \<open>try\<close> block writes the entry; the \<open>catch\<close> block returns false.\<close>

definition saveProgress :: "platform \<Rightarrow> progress_manager \<Rightarrow> world \<Rightarrow> bool \<times> world" where
  "saveProgress P pm w =
     (case Date_now w of (now, w1) \<Rightarrow>
        (let data = \<lparr>saved_persistent = persistentData pm,
                     saved_lastSession =
                       \<lparr>last_difficulty = difficulty (sessionData pm),
                        last_score = score (sessionData pm),
                        last_stars = starsEarned (sessionData pm),
                        last_bananas = bananasCollected (sessionData pm),
                        last_timestamp = now\<rparr>\<rparr>
         in case localStorage_setItem (storageKey pm) (JSON_stringify P data) w1 of
              Inl err \<Rightarrow> (False, w1)
            | Inr w2 \<Rightarrow> (True, w2)))"

text \<open>The object spread \<open>{...defaults, ...patch}\<close>: a property of the patch wins.\<close>

definition spread_persistent :: "persistent_data \<Rightarrow> persistent_patch \<Rightarrow> persistent_data" where
  "spread_persistent d p =
     \<lparr>playerId = (case patch_playerId p of Some v \<Rightarrow> v | None \<Rightarrow> playerId d),
      createdAt = (case patch_createdAt p of Some v \<Rightarrow> v | None \<Rightarrow> createdAt d),
      lastPlayed = (case patch_lastPlayed p of Some v \<Rightarrow> v | None \<Rightarrow> lastPlayed d),
      totalSessions = (case patch_totalSessions p of Some v \<Rightarrow> v | None \<Rightarrow> totalSessions d),
      totalBananas = (case patch_totalBananas p of Some v \<Rightarrow> v | None \<Rightarrow> totalBananas d),
      totalStars = (case patch_totalStars p of Some v \<Rightarrow> v | None \<Rightarrow> totalStars d),
      levelsCompleted =
        (case patch_levelsCompleted p of Some v \<Rightarrow> v | None \<Rightarrow> levelsCompleted d),
      highScores = (case patch_highScores p of Some v \<Rightarrow> v | None \<Rightarrow> highScores d),
      preferences = (case patch_preferences p of Some v \<Rightarrow> v | None \<Rightarrow> preferences d)\<rparr>"

text \<open>
  \<open>loadProgress\<close>: every exception inside the \<open>try\<close> block (storage access,
  \<open>JSON.parse\<close>, reading a property of \<open>null\<close>) ends in the \<open>catch\<close> block, which
  returns false.
\<close>

definition loadProgress ::
  "platform \<Rightarrow> progress_manager \<Rightarrow> world \<Rightarrow> bool \<times> progress_manager \<times> world" where
  "loadProgress P pm w =
     (case localStorage_getItem (storageKey pm) w of
        Inl err \<Rightarrow> (False, pm, w)
      | Inr None \<Rightarrow> (False, pm, w)
      | Inr (Some saved) \<Rightarrow>
          if saved = [] then (False, pm, w)
          else
            (case JSON_parse P saved of
               None \<Rightarrow> (False, pm, w)
             | Some JNull \<Rightarrow> (False, pm, w)
             | Some (JValue None) \<Rightarrow> (True, pm, w)
             | Some (JValue (Some patch)) \<Rightarrow>
                 (case getDefaultPersistentData P w of (d, w1) \<Rightarrow>
                    (True, pm\<lparr>persistentData := spread_persistent d patch\<rparr>, w1))))"

definition ProgressManager_initialize ::
  "platform \<Rightarrow> progress_manager \<Rightarrow> world \<Rightarrow> progress_manager \<times> world" where
  "ProgressManager_initialize P pm w = snd (loadProgress P pm w)"

subsection \<open>Completing a session\<close>

text \<open>
  \<open>completeSession\<close>. A tier without an entry in \<open>highScores\<close> compares the score
  with \<open>undefined\<close>, which is false; a tier without an entry in \<open>levelsCompleted\<close>
  throws a \<open>TypeError\<close> on \<open>.length\<close>, after the totals were updated and before the
  progress is saved.
\<close>

definition completeSession ::
  "platform \<Rightarrow> progress_manager \<Rightarrow> world
     \<Rightarrow> (js_error + session_results) \<times> progress_manager \<times> world" where
  "completeSession P pm w =
     (case updateElapsedTime pm w of (pm1, w1) \<Rightarrow>
      case Date_now w1 of (now, w2) \<Rightarrow>
        (let stars = calculateStars pm1;
             sd = (sessionData pm1)\<lparr>starsEarned := stars\<rparr>;
             pd = persistentData pm1;
             pd1 = pd\<lparr>totalSessions := totalSessions pd + 1,
                      totalBananas := totalBananas pd + bananasCollected sd,
                      totalStars := totalStars pd + stars,
                      lastPlayed := now\<rparr>;
             d = difficulty sd;
             pd2 = (case highScores pd1 d of
                      Some h \<Rightarrow>
                        if score sd > h then pd1\<lparr>highScores := (highScores pd1)(d \<mapsto> score sd)\<rparr>
                        else pd1
                    | None \<Rightarrow> pd1)
         in case levelsCompleted pd2 d of
              None \<Rightarrow> (Inl TypeError, pm1\<lparr>sessionData := sd, persistentData := pd2\<rparr>, w2)
            | Some levels \<Rightarrow>
                (let levelNumber = int (length levels) + 1;
                     pd3 = (if levelNumber \<notin> set levels
                            then pd2\<lparr>levelsCompleted :=
                                       (levelsCompleted pd2)(d \<mapsto> levels @ [levelNumber])\<rparr>
                            else pd2);
                     pm2 = pm1\<lparr>sessionData := sd, persistentData := pd3\<rparr>
                 in case saveProgress P pm2 w2 of (ok, w3) \<Rightarrow>
                      (Inr \<lparr>result_score = score sd,
                            result_accuracy = calculateAccuracy pm2,
                            result_stars = stars,
                            result_bananas = bananasCollected sd,
                            result_correctAnswers = correctAnswers sd,
                            result_totalAnswers = totalAnswers sd,
                            result_elapsedTime = elapsedTime sd\<rparr>, pm2, w3))))"

subsection \<open>Resets, preferences, import and the read-only operations\<close>

definition resetSession :: "progress_manager \<Rightarrow> world \<Rightarrow> progress_manager \<times> world" where
  "resetSession pm w =
     (case getDefaultSessionData w of (sd, w') \<Rightarrow> (pm\<lparr>sessionData := sd\<rparr>, w'))"

definition resetAllProgress ::
  "platform \<Rightarrow> progress_manager \<Rightarrow> world \<Rightarrow> progress_manager \<times> world" where
  "resetAllProgress P pm w =
     (case getDefaultSessionData w of (sd, w1) \<Rightarrow>
      case getDefaultPersistentData P w1 of (pd, w2) \<Rightarrow>
        (pm\<lparr>sessionData := sd, persistentData := pd\<rparr>,
         case localStorage_removeItem (storageKey pm) w2 of Inl err \<Rightarrow> w2 | Inr w3 \<Rightarrow> w3))"

definition isLocalStorageAvailable :: "world \<Rightarrow> bool \<times> world" where
  "isLocalStorageAvailable w =
     (case localStorage_setItem ''__storage_test__'' ''__storage_test__'' w of
        Inl err \<Rightarrow> (False, w)
      | Inr w1 \<Rightarrow>
          (case localStorage_removeItem ''__storage_test__'' w1 of
             Inl err \<Rightarrow> (False, w1)
           | Inr w2 \<Rightarrow> (True, w2)))"

definition updatePreferences ::
  "platform \<Rightarrow> progress_manager \<Rightarrow> (string \<rightharpoonup> bool) \<Rightarrow> world \<Rightarrow> progress_manager \<times> world" where
  "updatePreferences P pm prefs w =
     (let pm1 = pm\<lparr>persistentData :=
                    (persistentData pm)\<lparr>preferences := preferences (persistentData pm) ++ prefs\<rparr>\<rparr>
      in (pm1, snd (saveProgress P pm1 w)))"

definition importProgress ::
  "platform \<Rightarrow> progress_manager \<Rightarrow> js_data \<Rightarrow> world \<Rightarrow> bool \<times> progress_manager \<times> world" where
  "importProgress P pm data w =
     (case data of
        JNull \<Rightarrow> (False, pm, w)
      | JValue None \<Rightarrow> (True, pm, snd (saveProgress P pm w))
      | JValue (Some patch) \<Rightarrow>
          (case getDefaultPersistentData P w of (d, w1) \<Rightarrow>
             (let pm1 = pm\<lparr>persistentData := spread_persistent d patch\<rparr>
              in (True, pm1, snd (saveProgress P pm1 w1)))))"

definition getHighScore :: "progress_manager \<Rightarrow> string \<Rightarrow> int" where
  "getHighScore pm d = (case highScores (persistentData pm) d of Some h \<Rightarrow> h | None \<Rightarrow> 0)"

definition getCompletedLevels :: "progress_manager \<Rightarrow> string \<Rightarrow> int list" where
  "getCompletedLevels pm d =
     (case levelsCompleted (persistentData pm) d of Some l \<Rightarrow> l | None \<Rightarrow> [])"

definition getPreference :: "progress_manager \<Rightarrow> string \<Rightarrow> bool option" where
  "getPreference pm k = preferences (persistentData pm) k"

definition isLevelCompleted :: "progress_manager \<Rightarrow> string \<Rightarrow> int \<Rightarrow> js_error + bool" where
  "isLevelCompleted pm d levelNumber =
     (case levelsCompleted (persistentData pm) d of
        None \<Rightarrow> Inl TypeError
      | Some l \<Rightarrow> Inr (levelNumber \<in> set l))"

definition getTotalPlayTime :: "progress_manager \<Rightarrow> world \<Rightarrow> int \<times> world" where
  "getTotalPlayTime pm w =
     (case Date_now w of (now, w') \<Rightarrow> (now - createdAt (persistentData pm), w'))"

subsection \<open>Sequences of operations\<close>

text \<open>The methods of a \<open>ProgressManager\<close> instance, with their arguments.\<close>

datatype pm_op =
    Op_initialize
  | Op_startSession "string option" "int option"
  | Op_incrementScore js_arg
  | Op_recordAnswer bool
  | Op_addBananas "js_arg option"
  | Op_nextQuestion
  | Op_calculateAccuracy
  | Op_calculateStars
  | Op_updateElapsedTime
  | Op_completeSession
  | Op_getCurrentStats
  | Op_getPersistentStats
  | Op_saveProgress
  | Op_loadProgress
  | Op_resetSession
  | Op_resetAllProgress
  | Op_isLocalStorageAvailable
  | Op_updatePreferences "string \<rightharpoonup> bool"
  | Op_getPreference string
  | Op_getHighScore string
  | Op_getCompletedLevels string
  | Op_isLevelCompleted string int
  | Op_getTotalPlayTime
  | Op_exportProgress
  | Op_importProgress js_data

text \<open>
  The effect of one method call on the instance and on the world; the returned value is
  dropped. The read-only methods change neither, except for the clock.
\<close>

fun pm_step :: "platform \<Rightarrow> pm_op \<Rightarrow> progress_manager \<times> world \<Rightarrow> progress_manager \<times> world" where
  "pm_step P Op_initialize (pm, w) = ProgressManager_initialize P pm w"
| "pm_step P (Op_startSession d n) (pm, w) = startSession pm d n w"
| "pm_step P (Op_incrementScore pts) (pm, w) = (incrementScore pm pts, w)"
| "pm_step P (Op_recordAnswer b) (pm, w) = (recordAnswer pm b, w)"
| "pm_step P (Op_addBananas c) (pm, w) = (addBananas pm c, w)"
| "pm_step P Op_nextQuestion (pm, w) = (nextQuestion pm, w)"
| "pm_step P Op_updateElapsedTime (pm, w) = updateElapsedTime pm w"
| "pm_step P Op_completeSession (pm, w) = snd (completeSession P pm w)"
| "pm_step P Op_saveProgress (pm, w) = (pm, snd (saveProgress P pm w))"
| "pm_step P Op_loadProgress (pm, w) = snd (loadProgress P pm w)"
| "pm_step P Op_resetSession (pm, w) = resetSession pm w"
| "pm_step P Op_resetAllProgress (pm, w) = resetAllProgress P pm w"
| "pm_step P Op_isLocalStorageAvailable (pm, w) = (pm, snd (isLocalStorageAvailable w))"
| "pm_step P (Op_updatePreferences prefs) (pm, w) = updatePreferences P pm prefs w"
| "pm_step P (Op_importProgress data) (pm, w) = snd (importProgress P pm data w)"
| "pm_step P Op_getTotalPlayTime (pm, w) = (pm, snd (getTotalPlayTime pm w))"
| "pm_step P Op_exportProgress (pm, w) = (pm, snd (Date_now w))"
| "pm_step P Op_calculateAccuracy (pm, w) = (pm, w)"
| "pm_step P Op_calculateStars (pm, w) = (pm, w)"
| "pm_step P Op_getCurrentStats (pm, w) = (pm, w)"
| "pm_step P Op_getPersistentStats (pm, w) = (pm, w)"
| "pm_step P (Op_getPreference k) (pm, w) = (pm, w)"
| "pm_step P (Op_getHighScore d) (pm, w) = (pm, w)"
| "pm_step P (Op_getCompletedLevels d) (pm, w) = (pm, w)"
| "pm_step P (Op_isLevelCompleted d n) (pm, w) = (pm, w)"

fun pm_run :: "platform \<Rightarrow> pm_op list \<Rightarrow> progress_manager \<times> world \<Rightarrow> progress_manager \<times> world" where
  "pm_run P [] st = st"
| "pm_run P (op # ops) st = pm_run P ops (pm_step P op st)"

text \<open>
  The operations that replace the persistent record as a whole: loading, importing and
  the reset of all progress. Every other operation belongs to playing sessions.
\<close>

fun replaces_record :: "pm_op \<Rightarrow> bool" where
  "replaces_record Op_initialize = True"
| "replaces_record Op_loadProgress = True"
| "replaces_record Op_resetAllProgress = True"
| "replaces_record (Op_importProgress data) = True"
| "replaces_record op = False"

text \<open>The operations that start a session afresh.\<close>

fun starts_afresh :: "pm_op \<Rightarrow> bool" where
  "starts_afresh (Op_startSession d n) = True"
| "starts_afresh Op_resetSession = True"
| "starts_afresh Op_resetAllProgress = True"
| "starts_afresh op = False"

definition counters :: "progress_manager \<Rightarrow> int \<times> int \<times> int" where
  "counters pm =
     (totalAnswers (sessionData pm), correctAnswers (sessionData pm),
      incorrectAnswers (sessionData pm))"

definition counters_ok :: "progress_manager \<Rightarrow> bool" where
  "counters_ok pm \<longleftrightarrow>
     totalAnswers (sessionData pm)
       = correctAnswers (sessionData pm) + incorrectAnswers (sessionData pm)"

subsection \<open>Sample values\<close>

text \<open>
  A world whose random source alternates between 1/2 and 9/10, whose clock starts at
  1000 and whose storage is empty and working.
\<close>

definition sample_world :: world where
  "sample_world =
     \<lparr>rnd = (\<lambda>i. if even i then 1 / 2 else 9 / 10), rpos = 0,
      clk = (\<lambda>i. 1000 + int i), cpos = 0,
      localStorage = Map.empty, storageFails = False, quotaExceeded = False\<rparr>"

definition sub_easy_001 :: question_template where
  "sub_easy_001 =
     mk_template ''sub_easy_001'' ''equation'' ''subtraction'' ''{a} - {b} = ?'' 0 10
       (Some True) (Some ''bananas'')"

text \<open>
  A platform whose \<open>JSON.parse\<close> rejects every string, as it does the text
  \<open>invalid json {]\<close>, and a manager constructed on it.
\<close>

definition sample_platform :: platform where
  "sample_platform =
     \<lparr>JSON_stringify = (\<lambda>d. ''{}''), JSON_parse = (\<lambda>s. None),
      toString36_suffix = (\<lambda>r. ''k3j9x0a'')\<rparr>"

definition sample_manager :: progress_manager where
  "sample_manager = fst (ProgressManager_new sample_platform sample_world)"

text \<open>A world whose stored entry is the text \<open>invalid json {]\<close>.\<close>

definition corrupt_world :: world where
  "corrupt_world =
     sample_world\<lparr>localStorage := [''gorilla-math-progress'' \<mapsto> ''invalid json {]'']\<rparr>"

text \<open>Two sessions on the tier \<open>easy\<close>, scoring 500 and then 300.\<close>

definition two_sessions :: "pm_op list" where
  "two_sessions =
     [Op_startSession (Some ''easy'') None, Op_incrementScore (Number 500), Op_completeSession,
      Op_startSession (Some ''easy'') None, Op_incrementScore (Number 300), Op_completeSession]"

definition before_second_completion :: "progress_manager \<times> world" where
  "before_second_completion =
     pm_run sample_platform (take 5 two_sessions) (sample_manager, sample_world)"

text \<open>An engine whose bank has an empty pool for the active tier, and one with a used window.\<close>

definition empty_pool_engine :: engine where
  "empty_pool_engine = MathEngine_new\<lparr>questionBank := Some [''easy'' \<mapsto> []]\<rparr>"

definition used_window_engine :: engine where
  "used_window_engine =
     MathEngine_new\<lparr>currentDifficulty := ''hard'', recentQuestions := [''add_hard_001'']\<rparr>"

text \<open>
  An imported record whose \<open>persistent\<close> object has the single property
  \<open>highScores: {easy: 700}\<close>, and the calls that import it and play a session on the
  tier \<open>medium\<close> scoring 500, up to the completion of the session.
\<close>

definition easy_only_patch :: persistent_patch where
  "easy_only_patch =
     \<lparr>patch_playerId = None, patch_createdAt = None, patch_lastPlayed = None,
      patch_totalSessions = None, patch_totalBananas = None, patch_totalStars = None,
      patch_levelsCompleted = None, patch_highScores = Some [''easy'' \<mapsto> 700],
      patch_preferences = None\<rparr>"

definition import_then_medium :: "pm_op list" where
  "import_then_medium =
     [Op_importProgress (JValue (Some easy_only_patch)),
      Op_startSession (Some ''medium'') None, Op_incrementScore (Number 500)]"

definition before_medium_completion :: "progress_manager \<times> world" where
  "before_medium_completion =
     pm_run sample_platform import_then_medium (sample_manager, sample_world)"

section \<open>Properties of question generation\<close>

lemma digit_char_isDigit: "d < 10 \<Longrightarrow> isDigit (digit_char d)"
  unfolding isDigit_def digit_char_def by (rule nth_mem) simp

lemma nat_toString_digits: "\<forall>c \<in> set (nat_toString n). isDigit c"
proof (induction n rule: nat_toString.induct)
  case (1 n)
  show ?case
  proof (cases "n < 10")
    case True
    then show ?thesis by (subst nat_toString.simps) (simp add: digit_char_isDigit)
  next
    case False
    with 1 show ?thesis
      by (subst nat_toString.simps) (auto simp: digit_char_isDigit)
  qed
qed

lemma brace_not_digit: "\<not> isDigit (CHR ''{'')"
  by (simp add: isDigit_def)

lemma Number_toString_no_brace: "CHR ''{'' \<notin> set (Number_toString i)"
  using nat_toString_digits brace_not_digit
  by (auto simp: Number_toString_def)

lemma String_replace_first:
  "c \<notin> set p \<Longrightarrow> String_replace (c # pat) rep (p @ (c # pat) @ rest) = p @ rep @ rest"
  by (induction p) auto

lemma question_of_subtraction:
  assumes "operation t = ''subtraction''"
  shows "answer (question_of e t a b now) = max a b - min a b"
    and "questionText (question_of e t a b now) =
           String_replace ''{b}'' (Number_toString (min a b))
             (String_replace ''{a}'' (Number_toString (max a b)) (template t))"
    and "operands (question_of e t a b now) = (a, b)"
  using assms by (simp_all add: question_of_def Let_def)

lemma render_placeholders:
  assumes "tpl = p @ ''{a}'' @ m @ ''{b}'' @ s" "CHR ''{'' \<notin> set p" "CHR ''{'' \<notin> set m"
  shows "String_replace ''{b}'' (Number_toString y) (String_replace ''{a}'' (Number_toString x) tpl)
         = p @ Number_toString x @ m @ Number_toString y @ s"
proof -
  have 1: "String_replace ''{a}'' (Number_toString x) tpl = p @ Number_toString x @ (m @ ''{b}'' @ s)"
    using assms(1,2) String_replace_first [of "CHR ''{''" p "''a}''" "Number_toString x" "m @ ''{b}'' @ s"]
    by simp
  have 2: "CHR ''{'' \<notin> set (p @ Number_toString x @ m)"
    using assms(2,3) Number_toString_no_brace by simp
  have "String_replace ''{b}'' (Number_toString y) ((p @ Number_toString x @ m) @ ''{b}'' @ s)
        = (p @ Number_toString x @ m) @ Number_toString y @ s"
    using String_replace_first [OF 2, of "''b}''" "Number_toString y" s] by simp
  with 1 show ?thesis by simp
qed

text \<open>
  C1. For a template whose operation is subtraction and for every pair of operands that
  \<open>generateQuestion\<close> samples, the answer is the larger operand minus the smaller one
  and is not negative, and the text is the template with the larger operand put for
  \<open>{a}\<close> and the smaller one for \<open>{b}\<close>; where the template reads
  \<open>p {a} m {b} s\<close> the text reads \<open>p larger m smaller s\<close>.
\<close>

theorem generateQuestion_subtraction:
  assumes "operation t = ''subtraction''"
  shows "case generateQuestion e t w of (q, w') \<Rightarrow>
           (case operands q of (a, b) \<Rightarrow>
              answer q = max a b - min a b \<and> 0 \<le> answer q \<and>
              questionText q =
                String_replace ''{b}'' (Number_toString (min a b))
                  (String_replace ''{a}'' (Number_toString (max a b)) (template t)) \<and>
              (\<forall>p m s. template t = p @ ''{a}'' @ m @ ''{b}'' @ s \<and> CHR ''{'' \<notin> set p
                   \<and> CHR ''{'' \<notin> set m
                 \<longrightarrow> questionText q
                       = p @ Number_toString (max a b) @ m @ Number_toString (min a b) @ s))"
  using question_of_subtraction [OF assms] render_placeholders
  by (auto simp: generateQuestion_def split: prod.splits)

theorem generateQuestion_subtraction_witness:
  "operation sub_easy_001 = ''subtraction'' \<and>
   answer (fst (generateQuestion MathEngine_new sub_easy_001 sample_world)) = 4 \<and>
   questionText (fst (generateQuestion MathEngine_new sub_easy_001 sample_world)) = ''9 - 5 = ?''"
proof -
  have h: "operation sub_easy_001 = ''subtraction''"
    by (simp add: sub_easy_001_def mk_template_def)
  have ops: "operands (fst (generateQuestion MathEngine_new sub_easy_001 sample_world)) = (5, 9)"
    by code_simp
  have tpl: "template sub_easy_001 = [] @ ''{a}'' @ '' - '' @ ''{b}'' @ '' = ?''"
    by (simp add: sub_easy_001_def mk_template_def)
  have n9: "Number_toString 9 = ''9''" and n5: "Number_toString 5 = ''5''" by code_simp+
  from generateQuestion_subtraction [OF h, of MathEngine_new sample_world] ops tpl n9 n5 h
  show ?thesis
    by (auto split: prod.splits)
qed

section \<open>Properties of answer validation\<close>

lemma validateAnswer_graded:
  assumes "parseInt (sanitizeInput input) = Some parsed"
    and "(case ca of Some c \<Rightarrow> Some c
          | None \<Rightarrow> (case currentQuestion e of Some q \<Rightarrow> Some (answer q) | None \<Rightarrow> None))
         = Some expected"
  shows "valid (fst (validateAnswer e input ca w))"
    and "userAnswer (fst (validateAnswer e input ca w)) = Some parsed"
    and "correctAnswer (fst (validateAnswer e input ca w)) = Some expected"
    and "correct (fst (validateAnswer e input ca w)) = (parsed = expected)"
    and "close (fst (validateAnswer e input ca w))
           = Some (parsed \<noteq> expected \<and> \<bar>parsed - expected\<bar> \<le> 2)"
  using assms
  by (simp_all add: validateAnswer_def isValidNumber_def Let_def split: prod.splits)

lemma isDigit_not_white: "isDigit c \<Longrightarrow> \<not> isWhiteSpace c"
  by (auto simp: isDigit_def isWhiteSpace_def)

lemma minus_not_white: "\<not> isWhiteSpace (CHR ''-'')"
  by (simp add: isWhiteSpace_def)

lemma minus_not_digit: "\<not> isDigit (CHR ''-'')"
  by (simp add: isDigit_def)

lemma plus_not_digit: "\<not> isDigit (CHR ''+'')"
  by (simp add: isDigit_def)

lemma remove_minus_digits:
  "list_all (\<lambda>c. isDigit c \<or> c = CHR ''-'') s \<Longrightarrow> list_all isDigit (remove_minus s)"
  by (induction s) (auto simp: remove_minus_def)

lemma no_minus_digits:
  "list_all (\<lambda>c. isDigit c \<or> c = CHR ''-'') s \<Longrightarrow> CHR ''-'' \<notin> set s \<Longrightarrow> list_all isDigit s"
  by (induction s) auto

lemma split_minus_length_digits: "list_all isDigit s \<Longrightarrow> split_minus_length s = 1"
  using minus_not_digit by (induction s) (auto simp: split_minus_length_def)

lemma few_minus: 
  "list_all (\<lambda>c. isDigit c \<or> c = CHR ''-'') ds \<Longrightarrow> \<not> split_minus_length (CHR ''-'' # ds) > 2 \<Longrightarrow> list_all isDigit ds"
proof -
  assume a: "list_all (\<lambda>c. isDigit c \<or> c = CHR ''-'') ds"
    and b: "\<not> split_minus_length (CHR ''-'' # ds) > 2"
  from b have "filter (\<lambda>c. c = CHR ''-'') ds = []"
    by (simp add: split_minus_length_def)
  then have "CHR ''-'' \<notin> set ds"
    by (auto simp: filter_empty_conv)
  with a show ?thesis by (rule no_minus_digits)
qed

lemma validators_sanitizeInput_shape: "clean_shape (validators_sanitizeInput input)"
proof -
  define c1 where "c1 = filter (\<lambda>c. isDigit c \<or> c = CHR ''-'')
                          (String_trim (case input of Num n \<Rightarrow> Number_toString n | Str s \<Rightarrow> s))"
  define c2 where "c2 = (if String_indexOf (CHR ''-'') c1 > 0 then remove_minus c1 else c1)"
  define c3 where "c3 = (if split_minus_length c2 > 2 then CHR ''-'' # remove_minus c2 else c2)"
  have r: "validators_sanitizeInput input = c3"
    by (simp add: validators_sanitizeInput_def c1_def c2_def c3_def Let_def)
  have a1: "list_all (\<lambda>c. isDigit c \<or> c = CHR ''-'') c1"
    by (simp add: c1_def list_all_iff)
  have a2: "list_all isDigit c2 \<or> (\<exists>ds. c2 = CHR ''-'' # ds \<and> list_all (\<lambda>c. isDigit c \<or> c = CHR ''-'') ds)"
  proof (cases "String_indexOf (CHR ''-'') c1 > 0")
    case True
    then show ?thesis using a1 by (simp add: c2_def remove_minus_digits)
  next
    case False
    show ?thesis
    proof (cases "CHR ''-'' \<in> set c1")
      case True
      with False have "takeWhile (\<lambda>x. x \<noteq> CHR ''-'') c1 = []"
        by (simp add: String_indexOf_def)
      with True obtain ds where "c1 = CHR ''-'' # ds"
        by (cases c1) (auto split: if_splits)
      with a1 False show ?thesis by (simp add: c2_def)
    next
      case no: False
      with a1 have "list_all isDigit c1" by (rule no_minus_digits)
      with False show ?thesis by (simp add: c2_def)
    qed
  qed
  have "clean_shape c3"
  proof (cases "list_all isDigit c2")
    case True
    then show ?thesis by (simp add: c3_def split_minus_length_digits clean_shape_def)
  next
    case False
    with a2 obtain ds where ds: "c2 = CHR ''-'' # ds" "list_all (\<lambda>c. isDigit c \<or> c = CHR ''-'') ds"
      by blast
    show ?thesis
    proof (cases "split_minus_length c2 > 2")
      case True
      have "list_all isDigit (remove_minus c2)"
        using ds by (intro remove_minus_digits) simp
      with True show ?thesis by (simp add: c3_def clean_shape_def)
    next
      case f: False
      with ds have "list_all isDigit ds" using few_minus by blast
      with f ds show ?thesis by (simp add: c3_def clean_shape_def)
    qed
  qed
  with r show ?thesis by simp
qed

lemma String_trim_id:
  "s \<noteq> [] \<Longrightarrow> \<not> isWhiteSpace (hd s) \<Longrightarrow> \<not> isWhiteSpace (last s) \<Longrightarrow> String_trim s = s"
proof -
  assume a: "s \<noteq> []" "\<not> isWhiteSpace (hd s)" "\<not> isWhiteSpace (last s)"
  then have 1: "dropWhile isWhiteSpace s = s" by (cases s) auto
  from a have "rev s \<noteq> []" "\<not> isWhiteSpace (hd (rev s))" by (simp_all add: hd_rev)
  then have "dropWhile isWhiteSpace (rev s) = rev s" by (cases "rev s") auto
  with 1 show ?thesis by (simp add: String_trim_def)
qed

lemma takeWhile_all: "list_all P xs \<Longrightarrow> takeWhile P xs = xs"
  by (induction xs) auto

lemma clean_parse_valid:
  assumes "clean_shape s" "parseInt s = Some p"
  shows "validators_isValidNumber s"
proof -
  from assms(1) consider (dig) "list_all isDigit s" | (neg) ds where "s = CHR ''-'' # ds" "list_all isDigit ds"
    by (cases s) (auto simp: clean_shape_def)
  then show ?thesis
  proof cases
    case dig
    have ne: "s \<noteq> []" using assms(2) by (auto simp: parseInt_def Let_def)
    with dig have hd: "isDigit (hd s)" and la: "isDigit (last s)"
      by (auto simp: list_all_iff)
    then have t: "String_trim s = s"
      using ne by (intro String_trim_id) (auto dest: isDigit_not_white)
    from hd have "hd s \<noteq> CHR ''-''" "hd s \<noteq> CHR ''+''"
      using minus_not_digit plus_not_digit by auto
    with dig ne t show ?thesis
      by (simp add: validators_isValidNumber_def String_toNumber_def Let_def)
  next
    case neg
    have "takeWhile isDigit ds \<noteq> []"
      using assms(2) neg(1) minus_not_white by (auto simp: parseInt_def Let_def split: if_splits)
    then have ne: "ds \<noteq> []" by auto
    with neg have "isDigit (last s)" by (auto simp: list_all_iff)
    then have t: "String_trim s = s"
      using neg(1) minus_not_white by (intro String_trim_id) (auto dest: isDigit_not_white)
    with neg ne show ?thesis
      by (simp add: validators_isValidNumber_def String_toNumber_def Let_def)
  qed
qed

lemma validators_validateAnswer_graded:
  assumes "parseInt (validators_sanitizeInput input) = Some parsed"
  shows "v_valid (validators_validateAnswer input expected)"
    and "v_value (validators_validateAnswer input expected) = Some parsed"
    and "v_correct (validators_validateAnswer input expected) = (parsed = expected)"
    and "v_close (validators_validateAnswer input expected)
           = Some (parsed \<noteq> expected \<and> \<bar>parsed - expected\<bar> \<le> 2)"
  using assms clean_parse_valid [OF validators_sanitizeInput_shape assms]
  by (simp_all add: validators_validateAnswer_def Let_def)


text \<open>
  C2. When the sanitized input parses to an integer, \<open>validateAnswer\<close> (of the engine,
  against an explicit expected value or the current question's answer, and of the
  validators module) reports \<open>correct\<close> exactly when the parsed value equals the expected
  one and \<open>close\<close> exactly when their distance is positive and at most 2; the two are
  never true together.
\<close>

theorem validateAnswer_correct_close:
  "(parseInt (sanitizeInput input) = Some parsed \<and>
    (ca = Some expected \<or>
     (ca = None \<and> (\<exists>q. currentQuestion e = Some q \<and> answer q = expected)))
    \<longrightarrow>
      (case validateAnswer e input ca w of (res, w') \<Rightarrow>
         valid res \<and> userAnswer res = Some parsed \<and>
         correct res = (parsed = expected) \<and>
         close res = Some (0 < \<bar>parsed - expected\<bar> \<and> \<bar>parsed - expected\<bar> \<le> 2) \<and>
         \<not> (correct res \<and> close res = Some True)))
   \<and>
   (parseInt (validators_sanitizeInput input) = Some parsed
    \<longrightarrow>
      (let res = validators_validateAnswer input expected
       in v_valid res \<and> v_value res = Some parsed \<and>
          v_correct res = (parsed = expected) \<and>
          v_close res = Some (0 < \<bar>parsed - expected\<bar> \<and> \<bar>parsed - expected\<bar> \<le> 2) \<and>
          \<not> (v_correct res \<and> v_close res = Some True)))"
proof (intro conjI impI)
  assume a: "parseInt (sanitizeInput input) = Some parsed \<and>
    (ca = Some expected \<or>
     (ca = None \<and> (\<exists>q. currentQuestion e = Some q \<and> answer q = expected)))"
  then have ex: "(case ca of Some c \<Rightarrow> Some c
          | None \<Rightarrow> (case currentQuestion e of Some q \<Rightarrow> Some (answer q) | None \<Rightarrow> None))
         = Some expected"
    by auto
  from a have p: "parseInt (sanitizeInput input) = Some parsed" by simp
  show "case validateAnswer e input ca w of (res, w') \<Rightarrow>
         valid res \<and> userAnswer res = Some parsed \<and>
         correct res = (parsed = expected) \<and>
         close res = Some (0 < \<bar>parsed - expected\<bar> \<and> \<bar>parsed - expected\<bar> \<le> 2) \<and>
         \<not> (correct res \<and> close res = Some True)"
    using validateAnswer_graded [OF p ex, of w]
    by (simp add: case_prod_beta)
next
  assume p: "parseInt (validators_sanitizeInput input) = Some parsed"
  show "let res = validators_validateAnswer input expected
       in v_valid res \<and> v_value res = Some parsed \<and>
          v_correct res = (parsed = expected) \<and>
          v_close res = Some (0 < \<bar>parsed - expected\<bar> \<and> \<bar>parsed - expected\<bar> \<le> 2) \<and>
          \<not> (v_correct res \<and> v_close res = Some True)"
    using validators_validateAnswer_graded [OF p, of expected]
    by (simp add: Let_def)
qed

theorem validateAnswer_correct_close_witness:
  "parseInt (sanitizeInput (Str ''14'')) = Some 14 \<and>
   parseInt (validators_sanitizeInput (Str ''14'')) = Some 14 \<and>
   correct (fst (validateAnswer MathEngine_new (Str ''14'') (Some 12) sample_world)) = False \<and>
   close (fst (validateAnswer MathEngine_new (Str ''14'') (Some 12) sample_world)) = Some True \<and>
   v_correct (validators_validateAnswer (Str ''14'') 12) = False \<and>
   v_close (validators_validateAnswer (Str ''14'') 12) = Some True"
proof -
  have p1: "parseInt (sanitizeInput (Str ''14'')) = Some 14" by code_simp
  have p2: "parseInt (validators_sanitizeInput (Str ''14'')) = Some 14" by code_simp
  from validateAnswer_correct_close
         [of "Str ''14''" 14 "Some 12" 12 MathEngine_new sample_world] p1 p2
  show ?thesis
    by (simp add: Let_def case_prod_beta)
qed

section \<open>Properties of the progress model\<close>

text \<open>
  C3. \<open>calculateAccuracy\<close> is \<open>correctAnswers / totalAnswers * 100\<close> and is 0 when no
  answer was recorded; \<open>calculateStars\<close> is 3 from 95 up, 2 from 80 up to below 95,
  1 from 60 up to below 80 and 0 below 60, hence 0 when no answer was recorded.
\<close>

theorem accuracy_and_stars:
  "calculateAccuracy pm =
     (if totalAnswers (sessionData pm) = 0 then 0
      else of_int (correctAnswers (sessionData pm)) / of_int (totalAnswers (sessionData pm)) * 100)
   \<and> (totalAnswers (sessionData pm) = 0
        \<longrightarrow> calculateAccuracy pm = 0 \<and> calculateStars pm = 0)
   \<and> (95 \<le> calculateAccuracy pm \<longrightarrow> calculateStars pm = 3)
   \<and> (80 \<le> calculateAccuracy pm \<and> calculateAccuracy pm < 95 \<longrightarrow> calculateStars pm = 2)
   \<and> (60 \<le> calculateAccuracy pm \<and> calculateAccuracy pm < 80 \<longrightarrow> calculateStars pm = 1)
   \<and> (calculateAccuracy pm < 60 \<longrightarrow> calculateStars pm = 0)"
  by (simp add: calculateStars_def calculateAccuracy_def Let_def)

theorem accuracy_and_stars_witness:
  "totalAnswers (sessionData sample_manager) = 0 \<and>
   calculateStars sample_manager = 0 \<and>
   calculateAccuracy (recordAnswer (recordAnswer (recordAnswer sample_manager True) True) False)
     = 200 / 3 \<and>
   calculateStars (recordAnswer (recordAnswer (recordAnswer sample_manager True) True) False) = 1 \<and>
   calculateStars (recordAnswer sample_manager True) = 3 \<and>
   calculateStars (recordAnswer (recordAnswer (recordAnswer (recordAnswer (recordAnswer
      sample_manager True) True) True) True) False) = 2 \<and>
   calculateStars (recordAnswer sample_manager False) = 0"
proof -
  let ?m3 = "recordAnswer (recordAnswer (recordAnswer sample_manager True) True) False"
  let ?m5 = "recordAnswer (recordAnswer (recordAnswer (recordAnswer (recordAnswer
      sample_manager True) True) True) True) False"
  have t0: "totalAnswers (sessionData sample_manager) = 0" by code_simp
  have a3: "calculateAccuracy ?m3 = 200 / 3" by code_simp
  have a1: "calculateAccuracy (recordAnswer sample_manager True) = 100" by code_simp
  have a5: "calculateAccuracy ?m5 = 80" by code_simp
  have a0: "calculateAccuracy (recordAnswer sample_manager False) = 0" by code_simp
  from accuracy_and_stars [of sample_manager] t0
  have s0: "calculateStars sample_manager = 0" by simp
  from accuracy_and_stars [of ?m3] a3
  have s3: "calculateStars ?m3 = 1" by simp
  from accuracy_and_stars [of "recordAnswer sample_manager True"] a1
  have s1: "calculateStars (recordAnswer sample_manager True) = 3" by simp
  from accuracy_and_stars [of ?m5] a5
  have s5: "calculateStars ?m5 = 2" by simp
  from accuracy_and_stars [of "recordAnswer sample_manager False"] a0
  have sf: "calculateStars (recordAnswer sample_manager False) = 0" by simp
  from t0 s0 a3 s3 s1 s5 sf show ?thesis by simp
qed
lemma highScores_completeSession:
  "highScores (persistentData (fst (snd (completeSession P pm w)))) =
     (case highScores (persistentData pm) (difficulty (sessionData pm)) of
        Some h \<Rightarrow>
          if score (sessionData pm) > h
          then (highScores (persistentData pm))(difficulty (sessionData pm) \<mapsto> score (sessionData pm))
          else highScores (persistentData pm)
      | None \<Rightarrow> highScores (persistentData pm))"
  by (simp add: completeSession_def updateElapsedTime_def Let_def
      split: prod.splits option.splits)

lemma getHighScore_completeSession:
  "getHighScore pm d \<le> getHighScore (fst (snd (completeSession P pm w))) d"
  by (simp add: getHighScore_def highScores_completeSession split: option.splits)

lemma persistentData_startSession:
  "persistentData (fst (startSession pm d n w)) = persistentData pm"
  by (simp add: startSession_def split: prod.splits)

lemma persistentData_resetSession:
  "persistentData (fst (resetSession pm w)) = persistentData pm"
  by (simp add: resetSession_def split: prod.splits)

lemma persistentData_incrementScore:
  "persistentData (incrementScore pm pts) = persistentData pm"
  by (simp add: incrementScore_def split: js_arg.splits)

lemma persistentData_addBananas:
  "persistentData (addBananas pm c) = persistentData pm"
  by (simp add: addBananas_def split: js_arg.splits option.splits)

lemma persistentData_recordAnswer:
  "persistentData (recordAnswer pm b) = persistentData pm"
  by (simp add: recordAnswer_def Let_def)

lemma getHighScore_step:
  assumes "\<not> replaces_record op"
  shows "getHighScore pm d \<le> getHighScore (fst (pm_step P op (pm, w))) d"
proof (cases op)
  case Op_completeSession
  then show ?thesis by (simp add: getHighScore_completeSession)
next
  case (Op_startSession x y)
  then show ?thesis by (simp add: getHighScore_def persistentData_startSession)
next
  case Op_resetSession
  then show ?thesis by (simp add: getHighScore_def persistentData_resetSession)
next
  case (Op_incrementScore x)
  then show ?thesis by (simp add: getHighScore_def persistentData_incrementScore)
next
  case (Op_addBananas x)
  then show ?thesis by (simp add: getHighScore_def persistentData_addBananas)
next
  case (Op_recordAnswer x)
  then show ?thesis by (simp add: getHighScore_def persistentData_recordAnswer)
next
  case Op_nextQuestion
  then show ?thesis by (simp add: getHighScore_def nextQuestion_def)
next
  case Op_updateElapsedTime
  then show ?thesis by (simp add: getHighScore_def updateElapsedTime_def split: prod.splits)
next
  case (Op_updatePreferences x)
  then show ?thesis by (simp add: getHighScore_def updatePreferences_def Let_def)
qed (use assms in simp_all)

lemma getHighScore_run:
  "\<forall>op \<in> set ops. \<not> replaces_record op \<Longrightarrow>
   getHighScore (fst st) d \<le> getHighScore (fst (pm_run P ops st)) d"
proof (induction ops arbitrary: st)
  case Nil
  then show ?case by simp
next
  case (Cons op ops)
  obtain pm w where st: "st = (pm, w)" by (cases st)
  from Cons.prems have 1: "getHighScore pm d \<le> getHighScore (fst (pm_step P op (pm, w))) d"
    by (intro getHighScore_step) simp
  from Cons.prems have "getHighScore (fst (pm_step P op st)) d
      \<le> getHighScore (fst (pm_run P ops (pm_step P op st))) d"
    by (intro Cons.IH) simp
  with 1 st show ?case by simp
qed

text \<open>
  For a tier that has an entry in the table of high scores, \<open>completeSession\<close> sets the
  entry to the maximum of the stored high score and the session's score and leaves the
  other tiers' entries as they are; over every sequence of operations that plays and
  completes sessions no high score decreases.
\<close>

lemma completeSession_highScore_present:
  "(highScores (persistentData pm) (difficulty (sessionData pm)) = Some h
    \<longrightarrow> highScores (persistentData (fst (snd (completeSession P pm w))))
            (difficulty (sessionData pm)) = Some (max h (score (sessionData pm))))
   \<and> (d \<noteq> difficulty (sessionData pm)
    \<longrightarrow> highScores (persistentData (fst (snd (completeSession P pm w)))) d
          = highScores (persistentData pm) d)
   \<and> ((\<forall>op \<in> set ops. \<not> replaces_record op)
    \<longrightarrow> getHighScore pm d \<le> getHighScore (fst (pm_run P ops (pm, w))) d)"
proof (intro conjI impI)
  show "highScores (persistentData (fst (snd (completeSession P pm w))))
            (difficulty (sessionData pm)) = Some (max h (score (sessionData pm)))"
    if "highScores (persistentData pm) (difficulty (sessionData pm)) = Some h"
    using that by (simp add: highScores_completeSession max_def)
  show "highScores (persistentData (fst (snd (completeSession P pm w)))) d
          = highScores (persistentData pm) d"
    if "d \<noteq> difficulty (sessionData pm)"
    using that by (simp add: highScores_completeSession split: option.splits)
  show "getHighScore pm d \<le> getHighScore (fst (pm_run P ops (pm, w))) d"
    if "\<forall>op \<in> set ops. \<not> replaces_record op"
    using getHighScore_run [OF that, of "(pm, w)" d P] by simp
qed

lemma completeSession_highScore_present_example:
  "highScores (persistentData (fst before_second_completion))
     (difficulty (sessionData (fst before_second_completion))) = Some 500
   \<and> score (sessionData (fst before_second_completion)) = 300
   \<and> difficulty (sessionData (fst before_second_completion)) = ''easy''
   \<and> highScores (persistentData (fst (snd (completeSession sample_platform
          (fst before_second_completion) (snd before_second_completion))))) ''easy'' = Some 500
   \<and> getHighScore (fst (pm_run sample_platform two_sessions (sample_manager, sample_world)))
         ''easy'' = 500
   \<and> getHighScore (fst before_second_completion) ''hard''
       \<le> getHighScore (fst (pm_run sample_platform two_sessions
                                (fst before_second_completion, snd before_second_completion)))
            ''hard''"
proof -
  have h: "highScores (persistentData (fst before_second_completion))
     (difficulty (sessionData (fst before_second_completion))) = Some 500"
    by code_simp
  have sc: "score (sessionData (fst before_second_completion)) = 300" by code_simp
  have di: "difficulty (sessionData (fst before_second_completion)) = ''easy''" by code_simp
  have ops: "\<forall>op \<in> set two_sessions. \<not> replaces_record op"
    by (simp add: two_sessions_def)
  have r: "getHighScore (fst (pm_run sample_platform two_sessions (sample_manager, sample_world)))
         ''easy'' = 500"
    by code_simp
  from completeSession_highScore_present
         [where pm = "fst before_second_completion" and w = "snd before_second_completion"
            and h = 500 and P = sample_platform and d = "''hard''" and ops = two_sessions]
       h sc di ops r
  show ?thesis by simp
qed

text \<open>
  A tier without an entry in the table keeps none: the comparison of the score with
  \<open>undefined\<close> is false, so the score is not stored, while \<open>getHighScore\<close> reads the
  missing entry as 0.
\<close>

lemma completeSession_highScore_absent:
  assumes "highScores (persistentData pm) (difficulty (sessionData pm)) = None"
  shows "highScores (persistentData (fst (snd (completeSession P pm w))))
           (difficulty (sessionData pm)) = None"
    and "getHighScore (fst (snd (completeSession P pm w))) (difficulty (sessionData pm)) = 0"
  using assms by (simp_all add: getHighScore_def highScores_completeSession)

text \<open>
  C8. \<open>completeSession\<close> does not always set the high score of the tier to the maximum
  of the stored high score and the session's score. The object spread of
  \<open>importProgress\<close> replaces the whole table of high scores by the imported one; after
  the import of a record whose table holds \<open>easy\<close> only, the high score of \<open>medium\<close>
  reads 0, a session on \<open>medium\<close> scoring 500 is completed without an error, and the
  high score of \<open>medium\<close> still reads 0.
\<close>

theorem completeSession_highScore_missing_entry:
  "difficulty (sessionData (fst before_medium_completion)) = ''medium''
   \<and> score (sessionData (fst before_medium_completion)) = 500
   \<and> highScores (persistentData (fst before_medium_completion)) ''medium'' = None
   \<and> getHighScore (fst before_medium_completion) ''medium'' = 0
   \<and> map_sum id result_score
         (fst (completeSession sample_platform (fst before_medium_completion)
                 (snd before_medium_completion))) = Inr 500
   \<and> getHighScore
         (fst (snd (completeSession sample_platform (fst before_medium_completion)
                      (snd before_medium_completion)))) ''medium'' = 0
   \<and> getHighScore
         (fst (snd (completeSession sample_platform (fst before_medium_completion)
                      (snd before_medium_completion)))) ''easy'' = 700"
  by code_simp

lemma loadProgress_no_entry:
  "\<not> storageFails w \<Longrightarrow> localStorage w (storageKey pm) = None
   \<Longrightarrow> loadProgress P pm w = (False, pm, w)"
  by (simp add: loadProgress_def localStorage_getItem_def)

lemma loadProgress_syntax_error:
  "\<not> storageFails w \<Longrightarrow> localStorage w (storageKey pm) = Some saved
   \<Longrightarrow> JSON_parse P saved = None \<Longrightarrow> loadProgress P pm w = (False, pm, w)"
  by (simp add: loadProgress_def localStorage_getItem_def)

lemma persistentData_new:
  "persistentData (fst (ProgressManager_new P w0))
     = fst (getDefaultPersistentData P (snd (getDefaultSessionData w0)))"
  by (simp add: ProgressManager_new_def split: prod.splits)

text \<open>
  C9. When the stored entry is not valid JSON, \<open>loadProgress\<close> returns false and changes
  neither the manager nor the world, exactly as it does when there is no stored entry;
  on a newly constructed manager the persistent record is therefore still the default
  record that the constructor made. The \<open>catch\<close> block of the source makes the model
  total: no exception leaves \<open>loadProgress\<close>.
\<close>

theorem loadProgress_invalid_json:
  assumes "\<not> storageFails w"
    and "localStorage w (storageKey pm) = Some saved"
    and "JSON_parse P saved = None"
  shows "loadProgress P pm w = (False, pm, w)
    \<and> loadProgress P pm (w\<lparr>localStorage := (localStorage w)(storageKey pm := None)\<rparr>)
        = (False, pm, w\<lparr>localStorage := (localStorage w)(storageKey pm := None)\<rparr>)
    \<and> (pm = fst (ProgressManager_new P w0)
         \<longrightarrow> persistentData (fst (snd (loadProgress P pm w)))
               = fst (getDefaultPersistentData P (snd (getDefaultSessionData w0))))"
proof (intro conjI impI)
  show 1: "loadProgress P pm w = (False, pm, w)"
    using assms by (rule loadProgress_syntax_error)
  show "loadProgress P pm (w\<lparr>localStorage := (localStorage w)(storageKey pm := None)\<rparr>)
        = (False, pm, w\<lparr>localStorage := (localStorage w)(storageKey pm := None)\<rparr>)"
    using assms(1) by (intro loadProgress_no_entry) simp_all
  show "persistentData (fst (snd (loadProgress P pm w)))
               = fst (getDefaultPersistentData P (snd (getDefaultSessionData w0)))"
    if "pm = fst (ProgressManager_new P w0)"
    using that 1 by (simp add: persistentData_new)
qed

theorem loadProgress_invalid_json_witness:
  "\<not> storageFails corrupt_world
   \<and> localStorage corrupt_world (storageKey sample_manager) = Some ''invalid json {]''
   \<and> JSON_parse sample_platform ''invalid json {]'' = None
   \<and> sample_manager = fst (ProgressManager_new sample_platform sample_world)
   \<and> loadProgress sample_platform sample_manager corrupt_world
       = (False, sample_manager, corrupt_world)
   \<and> highScores (persistentData
         (fst (snd (loadProgress sample_platform sample_manager corrupt_world)))) ''easy''
       = Some 0"
proof -
  have a: "\<not> storageFails corrupt_world"
    by (simp add: corrupt_world_def sample_world_def)
  have k: "storageKey sample_manager = ''gorilla-math-progress''"
    by (simp add: sample_manager_def ProgressManager_new_def split: prod.splits)
  have b: "localStorage corrupt_world (storageKey sample_manager) = Some ''invalid json {]''"
    by (simp add: k corrupt_world_def)
  have c: "JSON_parse sample_platform ''invalid json {]'' = None"
    by (simp add: sample_platform_def)
  have d: "highScores (fst (getDefaultPersistentData sample_platform
             (snd (getDefaultSessionData sample_world)))) ''easy'' = Some 0"
    by (simp add: getDefaultPersistentData_def split: prod.splits)
  have m: "sample_manager = fst (ProgressManager_new sample_platform sample_world)"
    by (simp add: sample_manager_def)
  note t = loadProgress_invalid_json [OF a b c, of sample_world]
  from t have l: "loadProgress sample_platform sample_manager corrupt_world
       = (False, sample_manager, corrupt_world)"
    by blast
  from t m have e: "persistentData
         (fst (snd (loadProgress sample_platform sample_manager corrupt_world)))
       = fst (getDefaultPersistentData sample_platform
             (snd (getDefaultSessionData sample_world)))"
    by blast
  have "highScores (persistentData
         (fst (snd (loadProgress sample_platform sample_manager corrupt_world)))) ''easy''
       = Some 0"
    by (simp only: e d)
  with a b c m l show ?thesis by blast
qed

lemma getDefaultSessionData_counters:
  "totalAnswers (fst (getDefaultSessionData w)) = 0"
  "correctAnswers (fst (getDefaultSessionData w)) = 0"
  "incorrectAnswers (fst (getDefaultSessionData w)) = 0"
  by (simp_all add: getDefaultSessionData_def Date_now_def)

lemma counters_new: "counters (fst (ProgressManager_new P w)) = (0, 0, 0)"
  by (simp add: counters_def ProgressManager_new_def getDefaultSessionData_def Date_now_def
      split: prod.splits)

lemma counters_startSession: "counters (fst (startSession pm d n w)) = (0, 0, 0)"
  by (simp add: counters_def startSession_def getDefaultSessionData_def Date_now_def
      split: prod.splits)

lemma counters_resetSession: "counters (fst (resetSession pm w)) = (0, 0, 0)"
  by (simp add: counters_def resetSession_def getDefaultSessionData_def Date_now_def
      split: prod.splits)

lemma counters_resetAllProgress: "counters (fst (resetAllProgress P pm w)) = (0, 0, 0)"
  by (simp add: counters_def resetAllProgress_def getDefaultSessionData_def Date_now_def
      split: prod.splits)

lemma counters_recordAnswer:
  "counters (recordAnswer pm b) =
     (totalAnswers (sessionData pm) + 1,
      correctAnswers (sessionData pm) + (if b then 1 else 0),
      incorrectAnswers (sessionData pm) + (if b then 0 else 1))"
  by (simp add: counters_def recordAnswer_def Let_def)

lemma sessionData_loadProgress:
  "sessionData (fst (snd (loadProgress P pm w))) = sessionData pm"
  by (simp add: loadProgress_def split: sum.splits option.splits js_data.splits prod.splits)

lemma sessionData_importProgress:
  "sessionData (fst (snd (importProgress P pm data w))) = sessionData pm"
  by (simp add: importProgress_def Let_def split: option.splits js_data.splits prod.splits)

lemma counters_completeSession:
  "counters (fst (snd (completeSession P pm w))) = counters pm"
  by (simp add: counters_def completeSession_def updateElapsedTime_def Let_def
      split: prod.splits option.splits)

lemma counters_incrementScore: "counters (incrementScore pm pts) = counters pm"
  by (simp add: counters_def incrementScore_def split: js_arg.splits)

lemma counters_addBananas: "counters (addBananas pm c) = counters pm"
  by (simp add: counters_def addBananas_def split: js_arg.splits option.splits)

lemma counters_other:
  assumes "\<not> starts_afresh op" "\<forall>b. op \<noteq> Op_recordAnswer b"
  shows "counters (fst (pm_step P op (pm, w))) = counters pm"
proof (cases op)
  case Op_initialize
  then show ?thesis
    using sessionData_loadProgress [of P pm w]
    by (simp add: counters_def ProgressManager_initialize_def)
next
  case Op_loadProgress
  then show ?thesis
    using sessionData_loadProgress [of P pm w] by (simp add: counters_def)
next
  case (Op_importProgress data)
  then show ?thesis
    using sessionData_importProgress [of P pm data w] by (simp add: counters_def)
next
  case Op_completeSession
  then show ?thesis by (simp add: counters_completeSession)
next
  case (Op_incrementScore x)
  then show ?thesis by (simp add: counters_incrementScore)
next
  case (Op_addBananas x)
  then show ?thesis by (simp add: counters_addBananas)
next
  case Op_nextQuestion
  then show ?thesis by (simp add: counters_def nextQuestion_def)
next
  case Op_updateElapsedTime
  then show ?thesis by (simp add: counters_def updateElapsedTime_def split: prod.splits)
next
  case (Op_updatePreferences x)
  then show ?thesis by (simp add: counters_def updatePreferences_def Let_def)
qed (use assms in simp_all)

lemma counters_ok_iff: "counters_ok pm \<longleftrightarrow> (case counters pm of (t, c, i) \<Rightarrow> t = c + i)"
  by (simp add: counters_ok_def counters_def)

lemma counters_ok_step: "counters_ok pm \<Longrightarrow> counters_ok (fst (pm_step P op (pm, w)))"
proof (cases "starts_afresh op")
  case True
  then have "counters (fst (pm_step P op (pm, w))) = (0, 0, 0)"
    by (cases op) (simp_all add: counters_startSession counters_resetSession counters_resetAllProgress)
  then show ?thesis by (simp add: counters_ok_iff)
next
  case False
  assume ok: "counters_ok pm"
  show ?thesis
  proof (cases "\<exists>b. op = Op_recordAnswer b")
    case True
    then obtain b where "op = Op_recordAnswer b" by blast
    with ok show ?thesis by (simp add: counters_ok_iff counters_recordAnswer) (simp add: counters_def)
  next
    case f: False
    with False have "counters (fst (pm_step P op (pm, w))) = counters pm"
      by (intro counters_other) auto
    with ok show ?thesis by (simp add: counters_ok_iff)
  qed
qed

lemma counters_ok_run: "counters_ok (fst st) \<Longrightarrow> counters_ok (fst (pm_run P ops st))"
proof (induction ops arbitrary: st)
  case Nil
  then show ?case by simp
next
  case (Cons op ops)
  obtain pm w where st: "st = (pm, w)" by (cases st)
  with Cons.prems have "counters_ok (fst (pm_step P op st))"
    by (simp add: counters_ok_step)
  then show ?case using Cons.IH by simp
qed

text \<open>
  C10. The counters \<open>totalAnswers\<close>, \<open>correctAnswers\<close> and \<open>incorrectAnswers\<close> are 0
  in a new manager and after every operation that starts a session afresh;
  \<open>recordAnswer\<close> adds one to \<open>totalAnswers\<close> and to exactly one of the other two; every
  other operation leaves the three counters as they are. Hence every operation keeps
  \<open>totalAnswers = correctAnswers + incorrectAnswers\<close>, and the equation holds after every
  sequence of operations on a new manager.
\<close>

theorem session_counters_invariant:
  "counters (fst (ProgressManager_new P w0)) = (0, 0, 0)
   \<and> (starts_afresh op1 \<longrightarrow> counters (fst (pm_step P op1 (pm, w))) = (0, 0, 0))
   \<and> counters (fst (pm_step P (Op_recordAnswer b) (pm, w))) =
         (totalAnswers (sessionData pm) + 1,
          correctAnswers (sessionData pm) + (if b then 1 else 0),
          incorrectAnswers (sessionData pm) + (if b then 0 else 1))
   \<and> (\<not> starts_afresh op2 \<and> (\<forall>b. op2 \<noteq> Op_recordAnswer b)
        \<longrightarrow> counters (fst (pm_step P op2 (pm, w))) = counters pm)
   \<and> (counters_ok pm \<longrightarrow> counters_ok (fst (pm_step P op3 (pm, w))))
   \<and> counters_ok (fst (pm_run P ops (ProgressManager_new P w0)))"
proof (intro conjI impI)
  show "counters (fst (ProgressManager_new P w0)) = (0, 0, 0)"
    by (rule counters_new)
  show "counters (fst (pm_step P op1 (pm, w))) = (0, 0, 0)" if "starts_afresh op1"
    using that
    by (cases op1)
       (simp_all add: counters_startSession counters_resetSession counters_resetAllProgress)
  show "counters (fst (pm_step P (Op_recordAnswer b) (pm, w))) =
         (totalAnswers (sessionData pm) + 1,
          correctAnswers (sessionData pm) + (if b then 1 else 0),
          incorrectAnswers (sessionData pm) + (if b then 0 else 1))"
    by (simp add: counters_recordAnswer)
  show "counters (fst (pm_step P op2 (pm, w))) = counters pm"
    if "\<not> starts_afresh op2 \<and> (\<forall>b. op2 \<noteq> Op_recordAnswer b)"
    using that by (intro counters_other) simp_all
  show "counters_ok (fst (pm_step P op3 (pm, w)))" if "counters_ok pm"
    using that by (rule counters_ok_step)
  have "counters_ok (fst (ProgressManager_new P w0))"
    by (simp add: counters_ok_iff counters_new)
  then show "counters_ok (fst (pm_run P ops (ProgressManager_new P w0)))"
    by (rule counters_ok_run)
qed

theorem session_counters_invariant_witness:
  "starts_afresh Op_resetSession
   \<and> counters (recordAnswer sample_manager True) = (1, 1, 0)
   \<and> counters (fst (pm_step sample_platform Op_resetSession
                      (recordAnswer sample_manager True, sample_world))) = (0, 0, 0)
   \<and> counters (fst (pm_step sample_platform (Op_recordAnswer False)
                      (recordAnswer sample_manager True, sample_world))) = (2, 1, 1)
   \<and> \<not> starts_afresh Op_completeSession
   \<and> counters (fst (pm_step sample_platform Op_completeSession
                      (recordAnswer sample_manager True, sample_world))) = (1, 1, 0)
   \<and> counters_ok (recordAnswer sample_manager True)
   \<and> counters_ok (fst (pm_step sample_platform (Op_incrementScore (Number 100))
                         (recordAnswer sample_manager True, sample_world)))"
proof -
  have c: "counters (recordAnswer sample_manager True) = (1, 1, 0)" by code_simp
  then have s: "totalAnswers (sessionData (recordAnswer sample_manager True)) = 1"
    "correctAnswers (sessionData (recordAnswer sample_manager True)) = 1"
    "incorrectAnswers (sessionData (recordAnswer sample_manager True)) = 0"
    by (simp_all add: counters_def)
  then have ok: "counters_ok (recordAnswer sample_manager True)"
    by (simp add: counters_ok_def)
  from session_counters_invariant
         [where P = sample_platform and ?w0.0 = sample_world and ?op1.0 = Op_resetSession
            and pm = "recordAnswer sample_manager True" and w = sample_world and b = False
            and ?op2.0 = Op_completeSession and ?op3.0 = "Op_incrementScore (Number 100)"
            and ops = "[]"]
       c s ok
  show ?thesis by simp
qed

section \<open>Properties of the question engine\<close>

lemma getRandomElement_member:
  assumes "random_ok w" "xs \<noteq> []"
  shows "\<exists>x \<in> set xs. fst (getRandomElement xs w) = Some x"
proof -
  let ?r = "rnd w (rpos w)"
  let ?n = "length xs"
  let ?i = "\<lfloor>?r * of_nat ?n\<rfloor>"
  from assms(1) have r: "0 \<le> ?r" "?r < 1" by (simp_all add: random_ok_def)
  from assms(2) have n: "0 < ?n" by simp
  from r(1) have "0 \<le> ?r * of_nat ?n" by simp
  then have lo: "0 \<le> ?i" by simp
  from r(2) n have "?r * of_nat ?n < 1 * of_nat ?n"
    by (intro mult_strict_right_mono) simp_all
  then have "?r * of_nat ?n < of_int (int ?n)" by simp
  then have hi: "?i < int ?n" by (simp only: floor_less_iff)
  from lo hi have "nat ?i < ?n" by (simp only: nat_less_iff)
  then have "xs ! nat ?i \<in> set xs" by (rule nth_mem)
  moreover have "fst (getRandomElement xs w) = Some (xs ! nat ?i)"
    using assms(2) lo hi by (simp add: getRandomElement_def Math_random_def Let_def)
  ultimately show ?thesis by blast
qed

lemma rnd_getRandomElement: "rnd (snd (getRandomElement xs w)) = rnd w"
  by (simp add: getRandomElement_def Math_random_def Let_def)

lemma rnd_randomInt: "rnd (snd (randomInt a b w)) = rnd w"
  by (simp add: randomInt_def Math_random_def)

lemma rnd_Date_now: "rnd (snd (Date_now w)) = rnd w"
  by (simp add: Date_now_def)

lemma rnd_generateQuestion: "rnd (snd (generateQuestion e t w)) = rnd w"
  by (simp add: generateQuestion_def case_prod_beta rnd_randomInt rnd_Date_now)

lemma rnd_generateFallbackQuestion: "rnd (snd (generateFallbackQuestion w)) = rnd w"
  by (simp add: generateFallbackQuestion_def case_prod_beta rnd_randomInt rnd_Date_now)

lemma rnd_selectTemplate: "rnd (snd (selectTemplate e pool w)) = rnd w"
  by (simp add: selectTemplate_def Let_def rnd_getRandomElement)

lemma rnd_getNextQuestion: "rnd (snd (snd (getNextQuestion e w))) = rnd w"
proof -
  have "rnd (snd (snd (case selectTemplate e1 pool w of
              (None, w1) \<Rightarrow> (Inl TypeError, e1, w1)
            | (Some t, w1) \<Rightarrow>
                (case generateQuestion e1 t w1 of (q, w2) \<Rightarrow>
                   (Inr q,
                    (addToRecentQuestions e1 (template_id t))\<lparr>currentQuestion := Some q\<rparr>,
                    w2))))) = rnd w" for e1 pool
    using rnd_selectTemplate [of e1 pool w]
    by (cases "selectTemplate e1 pool w")
       (auto simp: case_prod_beta rnd_generateQuestion split: option.splits)
  then show ?thesis
    by (simp add: getNextQuestion_def Let_def case_prod_beta rnd_generateFallbackQuestion)
qed

lemma random_ok_getNextQuestion:
  "random_ok w \<Longrightarrow> random_ok (snd (snd (getNextQuestion e w)))"
  by (simp add: random_ok_def rnd_getNextQuestion)

lemma selectTemplate_member:
  assumes "random_ok w" "pool \<noteq> []"
  shows "\<exists>t \<in> set pool. fst (selectTemplate e pool w) = Some t \<and>
           ((\<exists>t' \<in> set pool. template_id t' \<notin> set (recentQuestions e))
              \<longrightarrow> template_id t \<notin> set (recentQuestions e))"
proof (cases "filter (\<lambda>t. template_id t \<notin> set (recentQuestions e)) pool = []")
  case True
  then have none: "\<not> (\<exists>t' \<in> set pool. template_id t' \<notin> set (recentQuestions e))"
    by (auto simp: filter_empty_conv)
  from True have "selectTemplate e pool w = getRandomElement pool w"
    by (simp add: selectTemplate_def)
  with getRandomElement_member [OF assms] none show ?thesis by auto
next
  case False
  let ?av = "filter (\<lambda>t. template_id t \<notin> set (recentQuestions e)) pool"
  from False have "selectTemplate e pool w = getRandomElement ?av w"
    by (simp add: selectTemplate_def)
  moreover from getRandomElement_member [OF assms(1) False]
  obtain t where "t \<in> set ?av" "fst (getRandomElement ?av w) = Some t" by blast
  ultimately show ?thesis by auto
qed

lemma withQuestionBank_fields:
  "currentDifficulty (withQuestionBank e) = currentDifficulty e"
  "recentQuestions (withQuestionBank e) = recentQuestions e"
  "maxRecentQuestions (withQuestionBank e) = maxRecentQuestions e"
  "withQuestionBank (withQuestionBank e) = withQuestionBank e"
  "currentPool (withQuestionBank e) = currentPool e"
  by (simp_all add: withQuestionBank_def currentPool_def)

text \<open>The window after one more identifier, for a window within its bound of 3.\<close>

lemma addToRecentQuestions_window:
  assumes "window_ok e"
  shows "recentQuestions (addToRecentQuestions e x)
           = (if length (recentQuestions e) = 3 then tl (recentQuestions e) @ [x]
              else recentQuestions e @ [x])"
    and "window_ok (addToRecentQuestions e x)"
  using assms
  by (cases "recentQuestions e"; simp add: addToRecentQuestions_def window_ok_def Let_def)+


lemma draw_step:
  assumes "random_ok w" "window_ok e" "currentPool e \<noteq> []"
  shows "\<exists>t \<in> set (currentPool e).
           drawn_template_ids (Suc n) e w =
             Some (template_id t)
             # drawn_template_ids n (fst (snd (getNextQuestion e w)))
                 (snd (snd (getNextQuestion e w)))
         \<and> ((\<exists>t' \<in> set (currentPool e). template_id t' \<notin> set (recentQuestions e))
                \<longrightarrow> template_id t \<notin> set (recentQuestions e))
         \<and> recentQuestions (fst (snd (getNextQuestion e w))) =
               (if length (recentQuestions e) = 3
                then tl (recentQuestions e) @ [template_id t]
                else recentQuestions e @ [template_id t])
         \<and> window_ok (fst (snd (getNextQuestion e w)))
         \<and> currentPool (fst (snd (getNextQuestion e w))) = currentPool e"
proof -
  let ?e1 = "withQuestionBank e"
  let ?pool = "currentPool e"
  have pool: "currentPool ?e1 = ?pool" by (simp add: withQuestionBank_fields)
  have w1: "window_ok ?e1"
    using assms(2) by (simp add: window_ok_def withQuestionBank_fields)
  from selectTemplate_member [OF assms(1,3), of ?e1]
  obtain t where t: "t \<in> set ?pool" "fst (selectTemplate ?e1 ?pool w) = Some t"
    "(\<exists>t' \<in> set ?pool. template_id t' \<notin> set (recentQuestions e))
       \<longrightarrow> template_id t \<notin> set (recentQuestions e)"
    by (auto simp: withQuestionBank_fields)
  obtain ws where sel: "selectTemplate ?e1 ?pool w = (Some t, ws)"
    using t(2) by (cases "selectTemplate ?e1 ?pool w") simp
  obtain q wq where gen: "generateQuestion ?e1 t ws = (q, wq)"
    by (cases "generateQuestion ?e1 t ws")
  have nq: "getNextQuestion e w =
      (Inr q, (addToRecentQuestions ?e1 (template_id t))\<lparr>currentQuestion := Some q\<rparr>, wq)"
    using assms(3) sel gen by (simp add: getNextQuestion_def Let_def pool)
  have d: "drawn_template_ids (Suc n) e w =
             Some (template_id t)
             # drawn_template_ids n (fst (snd (getNextQuestion e w)))
                 (snd (snd (getNextQuestion e w)))"
    using assms(3) sel by (simp add: pool case_prod_beta)
  have r: "recentQuestions (fst (snd (getNextQuestion e w))) =
               (if length (recentQuestions e) = 3
                then tl (recentQuestions e) @ [template_id t]
                else recentQuestions e @ [template_id t])"
    using addToRecentQuestions_window(1) [OF w1, of "template_id t"]
    by (simp add: nq withQuestionBank_fields)
  have wo: "window_ok (fst (snd (getNextQuestion e w)))"
    using addToRecentQuestions_window(2) [OF w1, of "template_id t"]
    by (simp add: nq window_ok_def)
  have cp: "currentPool (fst (snd (getNextQuestion e w))) = currentPool e"
    using pool by (simp add: nq currentPool_def addToRecentQuestions_def Let_def)
  from t(1,3) d r wo cp show ?thesis by blast
qed

lemma short_list_cases:
  assumes "length (r :: 'a list) \<le> 3"
  shows "r = [] \<or> (\<exists>a. r = [a]) \<or> (\<exists>a b. r = [a, b]) \<or> (\<exists>a b c. r = [a, b, c])"
proof (cases r)
  case Nil
  then show ?thesis by simp
next
  case (Cons a r1)
  show ?thesis
  proof (cases r1)
    case Nil
    with Cons show ?thesis by simp
  next
    case c2: (Cons b r2)
    show ?thesis
    proof (cases r2)
      case Nil
      with Cons c2 show ?thesis by simp
    next
      case c3: (Cons c r3)
      with Cons c2 assms have "r3 = []" by simp
      with Cons c2 c3 show ?thesis by simp
    qed
  qed
qed

lemma three_pushes:
  assumes "length r0 \<le> 3"
    and "r1 = (if length r0 = 3 then tl r0 @ [x] else r0 @ [x])"
    and "r2 = (if length r1 = 3 then tl r1 @ [x] else r1 @ [x])"
    and "r3 = (if length r2 = 3 then tl r2 @ [x] else r2 @ [x])"
  shows "set r3 = {x}"
proof -
  from short_list_cases [OF assms(1)]
  consider "r0 = []" | a where "r0 = [a]" | a b where "r0 = [a, b]"
    | a b c where "r0 = [a, b, c]"
    by blast
  then show ?thesis
  proof cases
    case 1
    with assms(2-4) show ?thesis by simp
  next
    case 2
    with assms(2-4) show ?thesis by simp
  next
    case 3
    with assms(2-4) show ?thesis by simp
  next
    case 4
    with assms(2-4) show ?thesis by simp
  qed
qed



lemma pool_other_id:
  assumes "2 \<le> card (template_id ` set pool)"
  shows "\<exists>t' \<in> set pool. template_id t' \<noteq> x"
proof (rule ccontr)
  assume "\<not> (\<exists>t' \<in> set pool. template_id t' \<noteq> x)"
  then have "template_id ` set pool \<subseteq> {x}" by auto
  then have "card (template_id ` set pool) \<le> card {x}"
    by (intro card_mono) simp_all
  with assms show False by simp
qed

lemma pool_nonempty: "2 \<le> card (template_id ` set pool) \<Longrightarrow> pool \<noteq> []"
  by auto

lemma draws_all_some:
  "random_ok w \<Longrightarrow> window_ok e \<Longrightarrow> currentPool e \<noteq> []
   \<Longrightarrow> None \<notin> set (drawn_template_ids n e w)"
proof (induction n arbitrary: e w)
  case 0
  then show ?case by simp
next
  case (Suc n)
  let ?e' = "fst (snd (getNextQuestion e w))"
  let ?w' = "snd (snd (getNextQuestion e w))"
  from draw_step [OF Suc.prems, of n]
  obtain t where t:
    "t \<in> set (currentPool e)"
    "drawn_template_ids (Suc n) e w =
       Some (template_id t) # drawn_template_ids n ?e' ?w'"
    "(\<exists>t' \<in> set (currentPool e). template_id t' \<notin> set (recentQuestions e))
       \<longrightarrow> template_id t \<notin> set (recentQuestions e)"
    "recentQuestions ?e' =
       (if length (recentQuestions e) = 3 then tl (recentQuestions e) @ [template_id t]
        else recentQuestions e @ [template_id t])"
    "window_ok ?e'" "currentPool ?e' = currentPool e"
    by (elim bexE conjE) (rule that)
  have "random_ok ?w'" using Suc.prems(1) by (rule random_ok_getNextQuestion)
  moreover have "currentPool ?e' \<noteq> []" using t(6) Suc.prems(3) by simp
  ultimately have "None \<notin> set (drawn_template_ids n ?e' ?w')"
    using t(5) by (intro Suc.IH)
  then show ?case unfolding t(2) by simp
qed

lemma four_draws:
  assumes "random_ok w" "window_ok e" "2 \<le> card (template_id ` set (currentPool e))"
  shows "\<exists>a b c d rest.
           drawn_template_ids (Suc (Suc (Suc (Suc n)))) e w
             = Some a # Some b # Some c # Some d # rest
           \<and> \<not> (a = b \<and> b = c \<and> c = d)"
proof -
  let ?P = "currentPool e"
  have ne: "?P \<noteq> []" using assms(3) by (rule pool_nonempty)
  let ?e1 = "fst (snd (getNextQuestion e w))"
  let ?w1 = "snd (snd (getNextQuestion e w))"
  let ?e2 = "fst (snd (getNextQuestion ?e1 ?w1))"
  let ?w2 = "snd (snd (getNextQuestion ?e1 ?w1))"
  let ?e3 = "fst (snd (getNextQuestion ?e2 ?w2))"
  let ?w3 = "snd (snd (getNextQuestion ?e2 ?w2))"
  let ?e4 = "fst (snd (getNextQuestion ?e3 ?w3))"
  let ?w4 = "snd (snd (getNextQuestion ?e3 ?w3))"
  from draw_step [OF assms(1,2) ne, of "Suc (Suc (Suc n))"]
  obtain t1 where s1:
    "t1 \<in> set (currentPool e)"
    "drawn_template_ids (Suc (Suc (Suc (Suc n)))) e w =
       Some (template_id t1) # drawn_template_ids (Suc (Suc (Suc n))) ?e1 ?w1"
    "(\<exists>t' \<in> set (currentPool e). template_id t' \<notin> set (recentQuestions e))
       \<longrightarrow> template_id t1 \<notin> set (recentQuestions e)"
    "recentQuestions ?e1 =
       (if length (recentQuestions e) = 3 then tl (recentQuestions e) @ [template_id t1]
        else recentQuestions e @ [template_id t1])"
    "window_ok ?e1" "currentPool ?e1 = currentPool e"
    by (elim bexE conjE) (rule that)
  have r1: "random_ok ?w1" using assms(1) by (rule random_ok_getNextQuestion)
  have ne1: "currentPool ?e1 \<noteq> []" using ne s1(6) by simp
  from draw_step [OF r1 s1(5) ne1, of "Suc (Suc n)"]
  obtain t2 where s2:
    "t2 \<in> set (currentPool ?e1)"
    "drawn_template_ids (Suc (Suc (Suc n))) ?e1 ?w1 =
       Some (template_id t2) # drawn_template_ids (Suc (Suc n)) ?e2 ?w2"
    "(\<exists>t' \<in> set (currentPool ?e1). template_id t' \<notin> set (recentQuestions ?e1))
       \<longrightarrow> template_id t2 \<notin> set (recentQuestions ?e1)"
    "recentQuestions ?e2 =
       (if length (recentQuestions ?e1) = 3 then tl (recentQuestions ?e1) @ [template_id t2]
        else recentQuestions ?e1 @ [template_id t2])"
    "window_ok ?e2" "currentPool ?e2 = currentPool ?e1"
    by (elim bexE conjE) (rule that)
  have r2: "random_ok ?w2" using r1 by (rule random_ok_getNextQuestion)
  have ne2: "currentPool ?e2 \<noteq> []" using ne1 s2(6) by simp
  from draw_step [OF r2 s2(5) ne2, of "Suc n"]
  obtain t3 where s3:
    "t3 \<in> set (currentPool ?e2)"
    "drawn_template_ids (Suc (Suc n)) ?e2 ?w2 =
       Some (template_id t3) # drawn_template_ids (Suc n) ?e3 ?w3"
    "(\<exists>t' \<in> set (currentPool ?e2). template_id t' \<notin> set (recentQuestions ?e2))
       \<longrightarrow> template_id t3 \<notin> set (recentQuestions ?e2)"
    "recentQuestions ?e3 =
       (if length (recentQuestions ?e2) = 3 then tl (recentQuestions ?e2) @ [template_id t3]
        else recentQuestions ?e2 @ [template_id t3])"
    "window_ok ?e3" "currentPool ?e3 = currentPool ?e2"
    by (elim bexE conjE) (rule that)
  have r3: "random_ok ?w3" using r2 by (rule random_ok_getNextQuestion)
  have ne3: "currentPool ?e3 \<noteq> []" using ne2 s3(6) by simp
  from draw_step [OF r3 s3(5) ne3, of n]
  obtain t4 where s4:
    "t4 \<in> set (currentPool ?e3)"
    "drawn_template_ids (Suc n) ?e3 ?w3 =
       Some (template_id t4) # drawn_template_ids n ?e4 ?w4"
    "(\<exists>t' \<in> set (currentPool ?e3). template_id t' \<notin> set (recentQuestions ?e3))
       \<longrightarrow> template_id t4 \<notin> set (recentQuestions ?e3)"
    "recentQuestions ?e4 =
       (if length (recentQuestions ?e3) = 3 then tl (recentQuestions ?e3) @ [template_id t4]
        else recentQuestions ?e3 @ [template_id t4])"
    "window_ok ?e4" "currentPool ?e4 = currentPool ?e3"
    by (elim bexE conjE) (rule that)
  have p3: "currentPool ?e3 = ?P" using s1(6) s2(6) s3(6) by simp
  have neq: "\<not> (template_id t1 = template_id t2 \<and> template_id t2 = template_id t3
                 \<and> template_id t3 = template_id t4)"
  proof
    assume eq: "template_id t1 = template_id t2 \<and> template_id t2 = template_id t3
                 \<and> template_id t3 = template_id t4"
    let ?x = "template_id t1"
    have len: "length (recentQuestions e) \<le> 3" using assms(2) by (simp add: window_ok_def)
    from eq have e2: "template_id t2 = ?x" and e3: "template_id t3 = ?x"
      by simp_all
    have s2': "recentQuestions ?e2 =
       (if length (recentQuestions ?e1) = 3 then tl (recentQuestions ?e1) @ [?x]
        else recentQuestions ?e1 @ [?x])"
      using s2(4) by (simp only: e2)
    have s3': "recentQuestions ?e3 =
       (if length (recentQuestions ?e2) = 3 then tl (recentQuestions ?e2) @ [?x]
        else recentQuestions ?e2 @ [?x])"
      using s3(4) by (simp only: e3)
    have "set (recentQuestions ?e3) = {?x}"
      using len s1(4) s2' s3' by (rule three_pushes)
    moreover from pool_other_id [OF assms(3), of ?x]
    obtain t' where "t' \<in> set ?P" "template_id t' \<noteq> ?x" by blast
    ultimately have "\<exists>t' \<in> set (currentPool ?e3). template_id t' \<notin> set (recentQuestions ?e3)"
      using p3 by auto
    with s4(3) have "template_id t4 \<notin> set (recentQuestions ?e3)" by (rule mp)
    with \<open>set (recentQuestions ?e3) = {?x}\<close> eq show False by simp
  qed
  have "drawn_template_ids (Suc (Suc (Suc (Suc n)))) e w
          = Some (template_id t1) # Some (template_id t2) # Some (template_id t3)
            # Some (template_id t4) # drawn_template_ids n ?e4 ?w4"
    by (simp only: s1(2) s2(2) s3(2) s4(2))
  with neq show ?thesis by blast
qed

lemma two_distinct_card:
  assumes "a \<in> set xs" "b \<in> set xs" "a \<noteq> b"
  shows "2 \<le> card (set xs)"
proof -
  have "card {a, b} \<le> card (set xs)"
    using assms(1,2) by (intro card_mono) simp_all
  with assms(3) show ?thesis by simp
qed

text \<open>
  C4. With a random source that keeps the contract of \<open>Math.random()\<close>, a window of
  bound 3 and a pool for the active tier that holds at least two distinct template
  identifiers, every run of four or more consecutive calls of \<open>getNextQuestion\<close> draws a
  template at each call, and at least two distinct template identifiers among them.
\<close>

theorem anti_repetition:
  assumes "random_ok w" and "window_ok e"
    and "2 \<le> card (template_id ` set (currentPool e))"
    and "4 \<le> n"
  shows "None \<notin> set (drawn_template_ids n e w)
         \<and> length (drawn_template_ids n e w) = n
         \<and> 2 \<le> card (set (drawn_template_ids n e w))"
proof -
  define m where "m = n - 4"
  with assms(4) have n: "n = Suc (Suc (Suc (Suc m)))" by arith
  from four_draws [OF assms(1-3), of m]
  obtain a b c d rest where
    "drawn_template_ids (Suc (Suc (Suc (Suc m)))) e w
       = Some a # Some b # Some c # Some d # rest"
    and neq: "\<not> (a = b \<and> b = c \<and> c = d)"
    by blast
  then have ds: "drawn_template_ids n e w = Some a # Some b # Some c # Some d # rest"
    by (simp only: n)
  have ne: "currentPool e \<noteq> []" using assms(3) by (rule pool_nonempty)
  have 1: "None \<notin> set (drawn_template_ids n e w)"
    using assms(1,2) ne by (rule draws_all_some)
  have len: "length (drawn_template_ids k e' w') = k" for k e' w'
    by (induction k arbitrary: e' w') (simp_all add: case_prod_beta)
  from neq consider "a \<noteq> b" | "b \<noteq> c" | "c \<noteq> d" by blast
  then have "2 \<le> card (set (drawn_template_ids n e w))"
  proof cases
    case 1
    show ?thesis by (rule two_distinct_card [of "Some a" _ "Some b"]) (simp_all add: ds 1)
  next
    case 2
    show ?thesis by (rule two_distinct_card [of "Some b" _ "Some c"]) (simp_all add: ds 2)
  next
    case 3
    show ?thesis by (rule two_distinct_card [of "Some c" _ "Some d"]) (simp_all add: ds 3)
  qed
  with 1 len show ?thesis by simp
qed


theorem anti_repetition_witness:
  "random_ok sample_world \<and> window_ok MathEngine_new
   \<and> 2 \<le> card (template_id ` set (currentPool MathEngine_new))
   \<and> drawn_template_ids 4 MathEngine_new sample_world
       = [Some ''sub_easy_001'', Some ''sub_easy_002'', Some ''add_easy_002'',
          Some ''add_easy_001'']
   \<and> 2 \<le> card (set (drawn_template_ids 4 MathEngine_new sample_world))"
proof -
  have r: "random_ok sample_world"
    by (simp add: random_ok_def sample_world_def)
  have wo: "window_ok MathEngine_new"
    by (simp add: window_ok_def MathEngine_new_def)
  have "template_id ` set (currentPool MathEngine_new)
          = {''add_easy_001'', ''add_easy_002'', ''sub_easy_001'', ''sub_easy_002''}"
    by (simp add: currentPool_def MathEngine_new_def getDefaultQuestionBank_def
        default_easy_def mk_template_def)
  then have c: "2 \<le> card (template_id ` set (currentPool MathEngine_new))"
    by simp
  have d: "drawn_template_ids 4 MathEngine_new sample_world
       = [Some ''sub_easy_001'', Some ''sub_easy_002'', Some ''add_easy_002'',
          Some ''add_easy_001'']"
    by code_simp
  from anti_repetition [OF r wo c, of 4] r wo c d show ?thesis by simp
qed

text \<open>
  The bound on the window holds for a new engine and is kept by every operation of the
  engine, so every run of calls starts in a state to which the theorem applies.
\<close>

lemma window_ok_reachable:
  "window_ok MathEngine_new"
  "window_ok e \<Longrightarrow> window_ok (initialize e qd)"
  "window_ok e \<Longrightarrow> window_ok (setDifficulty e level)"
  "window_ok e \<Longrightarrow> window_ok (reset e)"
  by (simp_all add: window_ok_def MathEngine_new_def initialize_def setDifficulty_def reset_def
      split: option.splits)

lemma window_ok_getNextQuestion:
  assumes "window_ok e"
  shows "window_ok (fst (snd (getNextQuestion e w)))"
proof -
  have 1: "window_ok (withQuestionBank e)"
    using assms by (simp add: window_ok_def withQuestionBank_fields)
  have "window_ok ((addToRecentQuestions (withQuestionBank e) x)\<lparr>currentQuestion := q\<rparr>)"
    for x q
    using addToRecentQuestions_window(2) [OF 1, of x] by (simp add: window_ok_def)
  with 1 show ?thesis
    by (simp add: getNextQuestion_def Let_def case_prod_beta split: option.splits prod.splits)
qed

text \<open>
  With a random source that keeps its contract \<open>getNextQuestion\<close> always returns a
  question, and it stores the question as the current one when the pool of the active
  tier is not empty.
\<close>

lemma getNextQuestion_returns:
  assumes "random_ok w"
  shows "\<exists>q. fst (getNextQuestion e w) = Inr q \<and>
           (currentPool e \<noteq> [] \<longrightarrow> currentQuestion (fst (snd (getNextQuestion e w))) = Some q)"
proof (cases "currentPool e = []")
  case True
  then show ?thesis
    by (simp add: getNextQuestion_def Let_def withQuestionBank_fields case_prod_beta)
next
  case False
  from selectTemplate_member [OF assms False, of "withQuestionBank e"]
  obtain t where "fst (selectTemplate (withQuestionBank e) (currentPool e) w) = Some t"
    by blast
  then obtain ws where "selectTemplate (withQuestionBank e) (currentPool e) w = (Some t, ws)"
    by (cases "selectTemplate (withQuestionBank e) (currentPool e) w") simp
  with False show ?thesis
    by (simp add: getNextQuestion_def Let_def withQuestionBank_fields case_prod_beta)
qed

text \<open>
  On the fallback path, taken when the pool of the active tier is missing or empty, the
  function returns before the assignment to \<open>currentQuestion\<close>: the returned question
  is not stored and the engine keeps the current question it had.
\<close>

lemma getNextQuestion_fallback:
  assumes "currentPool e = []"
  shows "fst (getNextQuestion e w) = Inr (fst (generateFallbackQuestion w))"
    and "currentQuestion (fst (snd (getNextQuestion e w))) = currentQuestion e"
proof -
  have cq: "currentQuestion (withQuestionBank e) = currentQuestion e"
    by (simp add: withQuestionBank_def)
  show "fst (getNextQuestion e w) = Inr (fst (generateFallbackQuestion w))"
    using assms
    by (simp add: getNextQuestion_def Let_def withQuestionBank_fields case_prod_beta)
  show "currentQuestion (fst (snd (getNextQuestion e w))) = currentQuestion e"
    using assms
    by (simp add: getNextQuestion_def Let_def withQuestionBank_fields case_prod_beta cq)
qed

text \<open>
  C7. \<open>getNextQuestion\<close> returns a question in every case, but it does not store the
  question of the fallback path: on an engine without a current question whose pool for
  the active tier is empty, the call returns the fallback question and the current
  question is still \<open>null\<close>.
\<close>

theorem getNextQuestion_fallback_not_stored:
  "fst (getNextQuestion empty_pool_engine sample_world)
     = Inr \<lparr>question_id = ''fallback_1000'', question_type = ''equation'',
            question_operation = ''addition'', questionText = ''6 + 10 = ?'', answer = 16,
            question_visualHint = False, question_hintType = None, operands = (6, 10),
            question_difficulty = ''easy''\<rparr>
   \<and> currentQuestion (fst (snd (getNextQuestion empty_pool_engine sample_world))) = None"
  by code_simp

text \<open>
  C5. \<open>setDifficulty\<close> compares the level with the three lower-case names exactly. A
  level among them becomes the active tier and the window is cleared; every other
  level, another letter-casing included, makes \<open>easy\<close> the active tier.
\<close>

theorem setDifficulty_exact_match:
  "(level \<in> set validLevels
      \<longrightarrow> currentDifficulty (setDifficulty e level) = level
          \<and> recentQuestions (setDifficulty e level) = [])
   \<and> (other \<notin> set validLevels \<longrightarrow> currentDifficulty (setDifficulty e other) = ''easy'')
   \<and> set validLevels = {''easy'', ''medium'', ''hard''}"
  by (auto simp: setDifficulty_def validLevels_def)

theorem setDifficulty_exact_match_witness:
  "currentDifficulty (setDifficulty used_window_engine ''medium'') = ''medium''
   \<and> recentQuestions (setDifficulty used_window_engine ''medium'') = []
   \<and> currentDifficulty (setDifficulty used_window_engine ''EASY'') = ''easy''"
proof -
  have a: "''medium'' \<in> set validLevels" by (simp add: validLevels_def)
  have b: "''EASY'' \<notin> set validLevels" by (simp add: validLevels_def)
  from setDifficulty_exact_match [of "''medium''" used_window_engine "''EASY''"] a b
  show ?thesis by blast
qed

text \<open>
  The level \<open>MEDIUM\<close> does not select the tier \<open>medium\<close>: the active tier becomes
  \<open>easy\<close>, and the window is left as it was.
\<close>

theorem setDifficulty_case_counterexample:
  "currentDifficulty (setDifficulty used_window_engine ''MEDIUM'') = ''easy''
   \<and> currentDifficulty (setDifficulty used_window_engine ''MEDIUM'') \<noteq> ''medium''
   \<and> recentQuestions (setDifficulty used_window_engine ''MEDIUM'') = [''add_hard_001'']"
  by (simp add: setDifficulty_def validLevels_def used_window_engine_def MathEngine_new_def)

text \<open>
  C6. \<open>sanitizeInput\<close> of the engine, which \<open>validateAnswer\<close> of the engine applies,
  trims and deletes the characters that are neither digits nor minus signs, and does
  nothing about minus signs: a minus inside the number stays, and so do repeated
  leading ones. \<open>parseInt\<close> then reads \<open>1-5\<close> as 1 and \<open>--15\<close> as \<open>NaN\<close>.
\<close>

theorem sanitizeInput_keeps_minus:
  "sanitizeInput (Str ''1-5'') = ''1-5''
   \<and> parseInt (sanitizeInput (Str ''1-5'')) = Some 1
   \<and> sanitizeInput (Str ''--15'') = ''--15''
   \<and> parseInt (sanitizeInput (Str ''--15'')) = None"
  by code_simp

text \<open>The function of the same name in the validators module removes them.\<close>

lemma validators_sanitizeInput_examples:
  "validators_sanitizeInput (Str ''1-5'') = ''15''"
  "validators_sanitizeInput (Str ''--15'') = ''-15''"
  "validators_sanitizeInput (Str ''-1-5'') = ''-15''"
  by code_simp+

lemma sanitizeInput_strips:
  "\<forall>c \<in> set (sanitizeInput (Str s)). isDigit c \<or> c = CHR ''-''"
  by (simp add: sanitizeInput_def)

text \<open>
  The identifier that \<open>drawn_template_ids\<close> lists for a call is the one that the call
  puts at the end of the window and in front of the identifier of the returned question.
\<close>

lemma getNextQuestion_drawn_template:
  assumes "window_ok e" "currentPool e \<noteq> []"
    and "fst (selectTemplate (withQuestionBank e) (currentPool e) w) = Some t"
  shows "\<exists>q. fst (getNextQuestion e w) = Inr q
           \<and> take (length (template_id t)) (question_id q) = template_id t
           \<and> last (recentQuestions (fst (snd (getNextQuestion e w)))) = template_id t"
proof -
  let ?e1 = "withQuestionBank e"
  obtain ws where sel: "selectTemplate ?e1 (currentPool e) w = (Some t, ws)"
    using assms(3) by (cases "selectTemplate ?e1 (currentPool e) w") simp
  obtain q wq where gen: "generateQuestion ?e1 t ws = (q, wq)"
    by (cases "generateQuestion ?e1 t ws")
  have nq: "getNextQuestion e w =
      (Inr q, (addToRecentQuestions ?e1 (template_id t))\<lparr>currentQuestion := Some q\<rparr>, wq)"
    using assms(2) sel gen by (simp add: getNextQuestion_def Let_def withQuestionBank_fields)
  have w1: "window_ok ?e1"
    using assms(1) by (simp add: window_ok_def withQuestionBank_fields)
  have "question_id q = template_id t @ ''_'' @ Number_toString (fst (Date_now
          (snd (randomInt (minValue t) (maxValue t)
             (snd (randomInt (minValue t) (maxValue t) ws))))))"
    using gen by (auto simp: generateQuestion_def question_of_def Let_def case_prod_beta)
  then have 1: "take (length (template_id t)) (question_id q) = template_id t"
    by simp
  have 2: "last (recentQuestions (fst (snd (getNextQuestion e w)))) = template_id t"
    using addToRecentQuestions_window(1) [OF w1, of "template_id t"]
    by (simp add: nq)
  from nq 1 2 show ?thesis by simp
qed

end
